theory Spec2Isabelle
  imports Main "HOL-Library.Char_ord" "HOL-Library.List_Lexorder" "HOL-Library.Sublist"
begin

section \<open>Python values and their text\<close>

text \<open>
  The tokens of a \<open>LambdaExpr\<close> are annotated \<open>str\<close>, but \<open>_collapse\<close>, \<open>__round__\<close> and
  \<open>__contains__\<close> store their operand as it is, so a token is a Python value. The model
  covers the hashable scalars that occur in the doctests and in the default arguments:
  strings, integers, booleans and \<open>None\<close>; other values (floats, and unhashable ones such
  as lists, on which \<open>set(self._tokens)\<close> raises) are outside it. Strings are byte lists
  (UTF-8); the byte-wise lexicographic order on them is the order Python's \<open>sorted\<close> uses
  on \<open>str\<close>.
\<close>

datatype pyval = PStr string | PInt int | PBool bool | PNone

fun isinstance_str :: "pyval \<Rightarrow> bool" where
  "isinstance_str (PStr s) = True"
| "isinstance_str v = False"

definition digit_char :: "nat \<Rightarrow> char" where
  "digit_char d = ''0123456789'' ! d"

function str_nat :: "nat \<Rightarrow> string" where
  "str_nat n = (if n < 10 then [digit_char n] else str_nat (n div 10) @ [digit_char (n mod 10)])"
  by pat_completeness auto
termination
  by (relation "measure (\<lambda>n. n)") auto

declare str_nat.simps [simp del]

definition str_int :: "int \<Rightarrow> string" where
  "str_int i = (if i < 0 then CHR ''-'' # str_nat (nat (- i)) else str_nat (nat i))"

text \<open>\<open>str(v)\<close> for a value \<open>v\<close>.\<close>

fun py_str :: "pyval \<Rightarrow> string" where
  "py_str (PStr s) = s"
| "py_str (PInt i) = str_int i"
| "py_str (PBool b) = (if b then ''True'' else ''False'')"
| "py_str PNone = ''None''"

text \<open>\<open>sep.join(xs)\<close> for a list of strings.\<close>

fun join :: "string \<Rightarrow> string list \<Rightarrow> string" where
  "join sep [] = []"
| "join sep [x] = x"
| "join sep (x # y # ys) = x @ sep @ join sep (y # ys)"

section \<open>Errors\<close>

text \<open>
  \<open>LambdaVar.__init__\<close> raises \<open>NameError\<close> with two different messages, and \<open>_\<close> raises
  \<open>TypeError\<close> for a positional argument or for a keyword argument; each raise statement
  of the source is one constructor. \<open>Raised\<close> stands for any exception that comes from
  outside the module (the evaluator, a compiled function, an index out of range).
\<close>

datatype py_error =
    NameError_already_created string
  | NameError_not_valid_identifier string
  | TypeError_positional pyval
  | TypeError_kwarg string pyval
  | Raised string

section \<open>Objects\<close>

text \<open>
  An evaluated lambda runs in the interpreter: besides its arguments it can read and
  change whatever its expression reaches, such as the contents of the objects that the
  arguments refer to. \<open>world\<close> stands for that state outside the module, kept as a store
  of mutable lists by address; nothing is assumed about how a function uses it. A
  compiled function takes positional and keyword arguments and the world, and returns
  a value or raises, together with the world it leaves.

  The slot \<open>_lambda\<close> holds \<open>partial(_call_monkey_patcher, self)\<close> after
  \<open>LambdaExpr.__init__\<close>, the evaluated lambda after \<open>_eval\<close>, and is unset in the two
  variadic markers, whose \<open>__new__\<close> and \<open>__init__\<close> never assign it.
\<close>

type_synonym world = "nat \<Rightarrow> pyval list"

type_synonym callable =
  "pyval list \<Rightarrow> (string \<times> pyval) list \<Rightarrow> world \<Rightarrow> (py_error + pyval) \<times> world"

datatype lambda_slot = Unset | Patcher | Compiled callable

datatype pyclass = Cls_LambdaExpr | Cls_LambdaVar | Cls_LambdaArgs | Cls_LambdaKwargs

record lambda_expr =
  cls :: pyclass
  tokens :: "pyval list"
  lambda_slot :: lambda_slot

text \<open>\<open>LambdaExpr(*tokens)\<close>: the object that \<open>LambdaExpr.__init__\<close> leaves.\<close>

definition LambdaExpr :: "pyval list \<Rightarrow> lambda_expr" where
  "LambdaExpr toks = \<lparr>cls = Cls_LambdaExpr, tokens = toks, lambda_slot = Patcher\<rparr>"

text \<open>\<open>LambdaExpr.__repr__\<close> and \<open>LambdaExpr.__str__\<close>: \<open>''.join(map(str, self._tokens))\<close>.\<close>

definition dunder_repr :: "lambda_expr \<Rightarrow> string" where
  "dunder_repr self = concat (map py_str (tokens self))"

text \<open>
  \<open>str(self)\<close>. \<open>LambdaVar\<close> overrides \<open>__str__\<close> to return \<open>self._tokens[0]\<close>, and the two
  marker classes inherit the override; Python raises when the tuple is empty or when
  \<open>__str__\<close> returns something that is not a string.
\<close>

definition dunder_str :: "lambda_expr \<Rightarrow> py_error + string" where
  "dunder_str self =
     (if cls self = Cls_LambdaExpr then Inr (concat (map py_str (tokens self)))
      else (case tokens self of
              [] \<Rightarrow> Inl (Raised ''IndexError'')
            | PStr s # rest \<Rightarrow> Inr s
            | v # rest \<Rightarrow> Inl (Raised ''TypeError'')))"

text \<open>
  Every object of a placeholder class is built with exactly one token, its name
  (\<open>super().__init__(name)\<close>, \<open>('*args',)\<close>, \<open>('**kwargs',)\<close>), and \<open>_tokens\<close> is never
  assigned again. \<open>var_shape\<close> states this of an object.
\<close>

fun single_str :: "pyval list \<Rightarrow> bool" where
  "single_str [PStr s] = True"
| "single_str toks = False"

definition var_shape :: "lambda_expr \<Rightarrow> bool" where
  "var_shape self = (cls self = Cls_LambdaExpr \<or> single_str (tokens self))"

section \<open>Combinators\<close>

text \<open>The right operand of a combinator: another builder, or any other value.\<close>

datatype operand = Builder lambda_expr | Literal pyval

text \<open>\<open>_collapse(self, right, *inter_tokens)\<close>.\<close>

definition collapse :: "lambda_expr \<Rightarrow> operand \<Rightarrow> string list \<Rightarrow> lambda_expr" where
  "collapse self right inter_tokens =
     (case right of
        Builder r \<Rightarrow>
          LambdaExpr ([PStr ''(''] @ tokens self @ [PStr '')''] @ map PStr inter_tokens @ tokens r)
      | Literal v \<Rightarrow>
          LambdaExpr ([PStr ''(''] @ tokens self @ [PStr '')''] @ map PStr inter_tokens @ [v]))"

text \<open>
  The comparison and arithmetic methods that go through \<open>_collapse\<close>, one constructor per
  method, with the token each one passes.
\<close>

datatype binop =
    Eq | Ne | Lt | Gt | Le | Ge
  | Add | Sub | Mul | Floordiv | Div | Mod | Pow | Matmul
  | Lshift | Rshift | And | Or | Xor

fun op_token :: "binop \<Rightarrow> string" where
  "op_token Eq = ''==''"
| "op_token Ne = ''!=''"
| "op_token Lt = ''<''"
| "op_token Gt = ''>''"
| "op_token Le = ''<=''"
| "op_token Ge = ''>=''"
| "op_token Add = ''+''"
| "op_token Sub = ''-''"
| "op_token Mul = ''*''"
| "op_token Floordiv = ''//''"
| "op_token Div = ''/''"
| "op_token Mod = ''%''"
| "op_token Pow = ''**''"
| "op_token Matmul = ''@''"
| "op_token Lshift = ''<<''"
| "op_token Rshift = ''>>''"
| "op_token And = ''&''"
| "op_token Or = ''|''"
| "op_token Xor = ''^''"

definition binary :: "binop \<Rightarrow> lambda_expr \<Rightarrow> operand \<Rightarrow> lambda_expr" where
  "binary bop self other = collapse self other [op_token bop]"

text \<open>\<open>__divmod__(self, other)\<close>.\<close>

definition dunder_divmod :: "lambda_expr \<Rightarrow> operand \<Rightarrow> lambda_expr" where
  "dunder_divmod self other = LambdaExpr ([PStr ''divmod(''] @ tokens self @ [PStr '')''])"

text \<open>\<open>__round__(self, n=None)\<close>; \<open>round_default\<close> is the call without \<open>n\<close>.\<close>

definition dunder_round :: "lambda_expr \<Rightarrow> operand \<Rightarrow> lambda_expr" where
  "dunder_round self n =
     (let n' = (case n of Builder e \<Rightarrow> tokens e | Literal v \<Rightarrow> [v])
      in LambdaExpr ([PStr ''round(''] @ tokens self @ [PStr '',''] @ n' @ [PStr '')'']))"

definition round_default :: "lambda_expr \<Rightarrow> lambda_expr" where
  "round_default self = dunder_round self (Literal PNone)"

text \<open>\<open>__getitem__(self, key)\<close> with a builder or a value as key: \<open>f')[{key}]'\<close>.\<close>

definition format_operand :: "operand \<Rightarrow> py_error + string" where
  "format_operand x = (case x of Builder e \<Rightarrow> dunder_str e | Literal v \<Rightarrow> Inr (py_str v))"

definition dunder_getitem :: "lambda_expr \<Rightarrow> operand \<Rightarrow> py_error + lambda_expr" where
  "dunder_getitem self key =
     (case format_operand key of
        Inl e \<Rightarrow> Inl e
      | Inr k \<Rightarrow> Inr (LambdaExpr ([PStr ''(''] @ tokens self @ [PStr ('')['' @ k @ '']'')])))"

section \<open>Argument list and source of the compiled function\<close>

text \<open>The strings among the tokens: the only members of \<open>set(self._tokens)\<close> that can be
  members of a set of strings.\<close>

fun token_strs :: "pyval list \<Rightarrow> string list" where
  "token_strs [] = []"
| "token_strs (PStr s # ts) = s # token_strs ts"
| "token_strs (v # ts) = token_strs ts"

text \<open>\<open>_get_args\<close>: \<open>sorted(set(self._tokens) & _registered_vars)\<close>.\<close>

definition get_args :: "string set \<Rightarrow> lambda_expr \<Rightarrow> string list" where
  "get_args registered_vars self =
     sorted_list_of_set (set (token_strs (tokens self)) \<inter> registered_vars)"

text \<open>The text that \<open>_eval\<close> passes to \<open>eval\<close>: \<open>f'lambda {",".join(self._get_args())}:{self}'\<close>.\<close>

definition eval_source :: "string set \<Rightarrow> lambda_expr \<Rightarrow> py_error + string" where
  "eval_source registered_vars self =
     (case dunder_str self of
        Inl e \<Rightarrow> Inl e
      | Inr body \<Rightarrow> Inr (''lambda '' @ join '','' (get_args registered_vars self) @ '':'' @ body))"

text \<open>\<open>__getattr__(self, name)\<close>.\<close>

definition dunder_getattr :: "lambda_expr \<Rightarrow> string \<Rightarrow> lambda_expr" where
  "dunder_getattr self name = LambdaExpr ([PStr ''(''] @ tokens self @ [PStr ('').'' @ name)])"

section \<open>The call-style combinator\<close>

text \<open>
  \<open>_(self, *args, **kwargs)\<close>. The two generators are unpacked into the argument list of
  \<open>LambdaExpr(...)\<close> one after the other, so \<open>args_formatter\<close> has run to its end (or has
  raised) before \<open>kwargs_formatter\<close> starts, and \<open>need_kwarg_comma\<close> is then true exactly
  when there was a positional argument. Keyword arguments are an association list in the
  order of the call.
\<close>

fun args_rest :: "pyval list \<Rightarrow> py_error + pyval list" where
  "args_rest [] = Inr []"
| "args_rest (arg # it) =
     (if \<not> isinstance_str arg then Inl (TypeError_positional arg)
      else (case args_rest it of
              Inl e \<Rightarrow> Inl e
            | Inr ts \<Rightarrow> Inr (PStr '','' # arg # ts)))"

definition args_formatter :: "pyval list \<Rightarrow> py_error + pyval list" where
  "args_formatter args =
     (case args of
        [] \<Rightarrow> Inr []
      | arg # it \<Rightarrow>
          if \<not> isinstance_str arg then Inl (TypeError_positional arg)
          else (case args_rest it of
                  Inl e \<Rightarrow> Inl e
                | Inr ts \<Rightarrow> Inr (arg # ts)))"

fun kwargs_rest :: "(string \<times> pyval) list \<Rightarrow> py_error + pyval list" where
  "kwargs_rest [] = Inr []"
| "kwargs_rest ((k, v) # it) =
     (if \<not> isinstance_str v then Inl (TypeError_kwarg k v)
      else (case kwargs_rest it of
              Inl e \<Rightarrow> Inl e
            | Inr ts \<Rightarrow> Inr (PStr ('','' @ k @ ''='') # v # ts)))"

definition kwargs_formatter :: "bool \<Rightarrow> (string \<times> pyval) list \<Rightarrow> py_error + pyval list" where
  "kwargs_formatter need_kwarg_comma kwargs =
     (case kwargs of
        [] \<Rightarrow> Inr []
      | (k, v) # it \<Rightarrow>
          if \<not> isinstance_str v then Inl (TypeError_kwarg k v)
          else (case kwargs_rest it of
                  Inl e \<Rightarrow> Inl e
                | Inr ts \<Rightarrow>
                    Inr ((if need_kwarg_comma then [PStr '',''] else []) @ PStr (k @ ''='') # v # ts)))"

definition underscore ::
  "lambda_expr \<Rightarrow> pyval list \<Rightarrow> (string \<times> pyval) list \<Rightarrow> py_error + lambda_expr" where
  "underscore self args kwargs =
     (case args_formatter args of
        Inl e \<Rightarrow> Inl e
      | Inr ats \<Rightarrow>
          (case kwargs_formatter (args \<noteq> []) kwargs of
             Inl e \<Rightarrow> Inl e
           | Inr kts \<Rightarrow>
               Inr (LambdaExpr ([PStr ''(''] @ tokens self @ [PStr '')(''] @ ats @ kts @ [PStr '')'']))))"

fun is_TypeError :: "py_error \<Rightarrow> bool" where
  "is_TypeError (TypeError_positional v) = True"
| "is_TypeError (TypeError_kwarg k v) = True"
| "is_TypeError e = False"

section \<open>The process: registry, objects, singletons\<close>

text \<open>
  \<open>str.isidentifier\<close>, \<open>keyword.iskeyword\<close> and the builtin \<open>eval\<close> belong to the Python
  installation, not to this module; the model takes them as parameters, so that every
  theorem holds for whatever they answer.
\<close>

record python =
  str_isidentifier :: "string \<Rightarrow> bool"
  keyword_iskeyword :: "string \<Rightarrow> bool"
  builtins_eval :: "string \<Rightarrow> py_error + callable"

text \<open>
  The state of the process: the module-level set \<open>_registered_vars\<close>, the objects that have
  been created (a reference is an index into \<open>heap\<close>), the class attributes
  \<open>LambdaArgs.instance\<close> and \<open>LambdaKwargs.instance\<close> (\<open>None\<close> while \<open>hasattr\<close> is false), and
  a count of the calls of \<open>eval\<close> made so far, which the program does not have and which
  only records how often compilation was triggered; and the world outside the module,
  which only compiled functions touch.
\<close>

record pystate =
  registered_vars :: "string set"
  heap :: "lambda_expr list"
  LambdaArgs_instance :: "nat option"
  LambdaKwargs_instance :: "nat option"
  eval_calls :: nat
  world :: world

definition init_state :: pystate where
  "init_state = \<lparr>registered_vars = {}, heap = [], LambdaArgs_instance = None,
     LambdaKwargs_instance = None, eval_calls = 0, world = (\<lambda>addr. [])\<rparr>"

definition alloc :: "lambda_expr \<Rightarrow> pystate \<Rightarrow> nat \<times> pystate" where
  "alloc obj s = (length (heap s), s\<lparr>heap := heap s @ [obj]\<rparr>)"

text \<open>
  A reference that the heap does not hold cannot exist in Python. The operations on
  references answer such a reference with an error and leave the state alone.
\<close>

definition deref :: "pystate \<Rightarrow> nat \<Rightarrow> lambda_expr option" where
  "deref s a = (if a < length (heap s) then Some (heap s ! a) else None)"

text \<open>
  \<open>LambdaVar(name)\<close>: \<open>LambdaVar.__init__\<close>, with \<open>super().__init__(name)\<close> setting the one
  token and the slot. On an exception the new object is unreachable, and the state is
  the one before the call.
\<close>

definition LambdaVar :: "python \<Rightarrow> string \<Rightarrow> pystate \<Rightarrow> (py_error + nat) \<times> pystate" where
  "LambdaVar py name s =
     (if name \<in> registered_vars s then (Inl (NameError_already_created name), s)
      else if \<not> str_isidentifier py name \<or> keyword_iskeyword py name
      then (Inl (NameError_not_valid_identifier name), s)
      else (Inr (length (heap s)),
            s\<lparr>registered_vars := insert name (registered_vars s),
              heap := heap s @ [\<lparr>cls = Cls_LambdaVar, tokens = [PStr name], lambda_slot = Patcher\<rparr>]\<rparr>))"

text \<open>
  \<open>LambdaArgs()\<close> and \<open>LambdaKwargs()\<close>: \<open>__new__\<close> creates and caches the instance when the
  class has none, and returns the cached one; \<open>__init__\<close> does nothing, so the slot
  \<open>_lambda\<close> of a marker stays unset. The metaclass \<open>ChainedMeta\<close> comes from another
  module; construction and \<open>hasattr\<close> on the class are taken to be those of \<open>type\<close>.
\<close>

definition LambdaArgs :: "pystate \<Rightarrow> nat \<times> pystate" where
  "LambdaArgs s =
     (case LambdaArgs_instance s of
        None \<Rightarrow>
          (length (heap s),
           s\<lparr>heap := heap s @ [\<lparr>cls = Cls_LambdaArgs, tokens = [PStr ''*args''], lambda_slot = Unset\<rparr>],
             LambdaArgs_instance := Some (length (heap s)),
             registered_vars := insert ''*args'' (registered_vars s)\<rparr>)
      | Some a \<Rightarrow> (a, s))"

definition LambdaKwargs :: "pystate \<Rightarrow> nat \<times> pystate" where
  "LambdaKwargs s =
     (case LambdaKwargs_instance s of
        None \<Rightarrow>
          (length (heap s),
           s\<lparr>heap := heap s @ [\<lparr>cls = Cls_LambdaKwargs, tokens = [PStr ''**kwargs''], lambda_slot = Unset\<rparr>],
             LambdaKwargs_instance := Some (length (heap s)),
             registered_vars := insert ''**kwargs'' (registered_vars s)\<rparr>)
      | Some a \<Rightarrow> (a, s))"

section \<open>Compilation and invocation\<close>

text \<open>
  \<open>_eval(self)\<close> for the object at reference \<open>a\<close>: the source is built from the registry
  as it is now, \<open>eval\<close> is called, and only when it returns is the slot assigned.
\<close>

definition eval_lambda :: "python \<Rightarrow> nat \<Rightarrow> pystate \<Rightarrow> (py_error + callable) \<times> pystate" where
  "eval_lambda py a s =
     (case deref s a of
        None \<Rightarrow> (Inl (Raised ''no such object''), s)
      | Some self \<Rightarrow>
          (case eval_source (registered_vars s) self of
             Inl e \<Rightarrow> (Inl e, s)
           | Inr src \<Rightarrow>
               (case builtins_eval py src of
                  Inl e \<Rightarrow> (Inl e, s\<lparr>eval_calls := Suc (eval_calls s)\<rparr>)
                | Inr f \<Rightarrow>
                    (Inr f,
                     s\<lparr>heap := (heap s)[a := self\<lparr>lambda_slot := Compiled f\<rparr>],
                       eval_calls := Suc (eval_calls s)\<rparr>))))"

text \<open>
  Calling a compiled function: it gets the world as it is and leaves the world it
  returns; the state of the module is not its to change.
\<close>

definition apply_callable ::
  "callable \<Rightarrow> pyval list \<Rightarrow> (string \<times> pyval) list \<Rightarrow> pystate \<Rightarrow> (py_error + pyval) \<times> pystate" where
  "apply_callable f args kwargs s =
     (case f args kwargs (world s) of (r, w) \<Rightarrow> (r, s\<lparr>world := w\<rparr>))"

text \<open>
  Both \<open>__call__(self, *args, **kwargs)\<close> and \<open>_call_monkey_patcher(self, *args, **kwargs)\<close>
  name their first parameter \<open>self\<close>, so a keyword argument with that name gives
  \<open>self\<close> two values and Python raises \<open>TypeError\<close> before the body runs.
\<close>

definition rebinds_self :: "(string \<times> pyval) list \<Rightarrow> bool" where
  "rebinds_self kwargs = (''self'' \<in> set (map fst kwargs))"

text \<open>\<open>_call_monkey_patcher(self, *args, **kwargs)\<close>: \<open>self._eval()(*args, **kwargs)\<close>.\<close>

definition call_monkey_patcher ::
  "python \<Rightarrow> nat \<Rightarrow> pyval list \<Rightarrow> (string \<times> pyval) list \<Rightarrow> pystate \<Rightarrow> (py_error + pyval) \<times> pystate" where
  "call_monkey_patcher py a args kwargs s =
     (if rebinds_self kwargs then (Inl (Raised ''TypeError''), s)
      else (case eval_lambda py a s of
              (Inl e, s') \<Rightarrow> (Inl e, s')
            | (Inr f, s') \<Rightarrow> apply_callable f args kwargs s'))"

text \<open>
  \<open>__call__(self, *args, **kwargs)\<close>: \<open>self._lambda(*args, **kwargs)\<close>. Reading an unset slot
  raises \<open>AttributeError\<close>, on which Python calls \<open>__getattr__(self, '_lambda')\<close>; that
  returns a new builder, and it is this builder that is then called.
\<close>

definition dunder_call ::
  "python \<Rightarrow> nat \<Rightarrow> pyval list \<Rightarrow> (string \<times> pyval) list \<Rightarrow> pystate \<Rightarrow> (py_error + pyval) \<times> pystate" where
  "dunder_call py a args kwargs s =
     (if rebinds_self kwargs then (Inl (Raised ''TypeError''), s)
      else (case deref s a of
              None \<Rightarrow> (Inl (Raised ''no such object''), s)
            | Some self \<Rightarrow>
                (case lambda_slot self of
                   Compiled f \<Rightarrow> apply_callable f args kwargs s
                 | Patcher \<Rightarrow> call_monkey_patcher py a args kwargs s
                 | Unset \<Rightarrow>
                     (case alloc (dunder_getattr self ''_lambda'') s of
                        (b, s') \<Rightarrow> call_monkey_patcher py b args kwargs s'))))"

text \<open>
  What a program can do with the module, one step at a time: create a placeholder, ask
  for a marker, build an expression (every combinator ends in \<open>LambdaExpr(...)\<close>), invoke
  an object.
\<close>

datatype action =
    New_LambdaVar string
  | New_LambdaArgs
  | New_LambdaKwargs
  | New_LambdaExpr "pyval list"
  | Call nat "pyval list" "(string \<times> pyval) list"

fun step :: "python \<Rightarrow> action \<Rightarrow> pystate \<Rightarrow> pystate" where
  "step py (New_LambdaVar name) s = snd (LambdaVar py name s)"
| "step py New_LambdaArgs s = snd (LambdaArgs s)"
| "step py New_LambdaKwargs s = snd (LambdaKwargs s)"
| "step py (New_LambdaExpr toks) s = snd (alloc (LambdaExpr toks) s)"
| "step py (Call a args kwargs) s = snd (dunder_call py a args kwargs s)"

fun run :: "python \<Rightarrow> action list \<Rightarrow> pystate \<Rightarrow> pystate" where
  "run py [] s = s"
| "run py (act # acts) s = run py acts (step py act s)"

section \<open>A concrete Python for the examples\<close>

text \<open>
  The ASCII part of \<open>str.isidentifier\<close>, the list \<open>keyword.kwlist\<close> of Python 3, and an
  evaluator that knows two texts: the source of \<open>x + 1\<close>, a function that adds one and
  leaves the world alone, and \<open>lambda :1 +\<close>, on which \<open>eval\<close> raises \<open>SyntaxError\<close>. They
  serve the examples; no general theorem depends on them.
\<close>

definition id_start :: "char \<Rightarrow> bool" where
  "id_start c = (c = CHR ''_'' \<or> (CHR ''a'' \<le> c \<and> c \<le> CHR ''z'') \<or> (CHR ''A'' \<le> c \<and> c \<le> CHR ''Z''))"

definition id_continue :: "char \<Rightarrow> bool" where
  "id_continue c = (id_start c \<or> (CHR ''0'' \<le> c \<and> c \<le> CHR ''9''))"

definition ascii_isidentifier :: "string \<Rightarrow> bool" where
  "ascii_isidentifier name =
     (case name of [] \<Rightarrow> False | c # cs \<Rightarrow> id_start c \<and> list_all id_continue cs)"

definition kwlist :: "string list" where
  "kwlist = [''False'', ''None'', ''True'', ''and'', ''as'', ''assert'', ''async'', ''await'',
     ''break'', ''class'', ''continue'', ''def'', ''del'', ''elif'', ''else'', ''except'',
     ''finally'', ''for'', ''from'', ''global'', ''if'', ''import'', ''in'', ''is'', ''lambda'',
     ''nonlocal'', ''not'', ''or'', ''pass'', ''raise'', ''return'', ''try'', ''while'', ''with'',
     ''yield'']"

definition plus_one :: callable where
  "plus_one args kwargs w =
     (case (args, kwargs) of
        ([PInt i], []) \<Rightarrow> (Inr (PInt (i + 1)), w)
      | ([], [(k, PInt i)]) \<Rightarrow>
          if k = ''x'' then (Inr (PInt (i + 1)), w) else (Inl (Raised ''TypeError''), w)
      | _ \<Rightarrow> (Inl (Raised ''TypeError''), w))"

definition example_eval :: "string \<Rightarrow> py_error + callable" where
  "example_eval src =
     (if src = ''lambda x:(x)+1'' then Inr plus_one
      else if src = ''lambda :1 +'' then Inl (Raised ''SyntaxError'')
      else Inl (Raised ''not among the examples''))"

definition example_python :: python where
  "example_python = \<lparr>str_isidentifier = ascii_isidentifier,
     keyword_iskeyword = (\<lambda>name. name \<in> set kwlist), builtins_eval = example_eval\<rparr>"

section \<open>Relations between states\<close>

text \<open>
  What no step of the program undoes: the registry only grows; the heap only grows; an
  object keeps its class and its tokens; a slot that holds a compiled function keeps
  it; a cached marker instance stays cached.
\<close>

definition evolves :: "pystate \<Rightarrow> pystate \<Rightarrow> bool" where
  "evolves s s' \<longleftrightarrow>
     registered_vars s \<subseteq> registered_vars s' \<and>
     length (heap s) \<le> length (heap s') \<and>
     (\<forall>a < length (heap s).
        cls (heap s' ! a) = cls (heap s ! a) \<and>
        tokens (heap s' ! a) = tokens (heap s ! a) \<and>
        (\<forall>f. lambda_slot (heap s ! a) = Compiled f \<longrightarrow> lambda_slot (heap s' ! a) = Compiled f)) \<and>
     (\<forall>a. LambdaArgs_instance s = Some a \<longrightarrow> LambdaArgs_instance s' = Some a) \<and>
     (\<forall>a. LambdaKwargs_instance s = Some a \<longrightarrow> LambdaKwargs_instance s' = Some a)"

text \<open>
  Every registered name was accepted by \<open>LambdaVar.__init__\<close> or is the name of a marker.
\<close>

definition names_accepted :: "python \<Rightarrow> pystate \<Rightarrow> bool" where
  "names_accepted py s \<longleftrightarrow>
     (\<forall>n \<in> registered_vars s.
        (str_isidentifier py n \<and> \<not> keyword_iskeyword py n) \<or> n = ''*args'' \<or> n = ''**kwargs'')"

section \<open>Basic facts\<close>

lemma token_strs_mem: "s \<in> set (token_strs toks) \<longleftrightarrow> PStr s \<in> set toks"
  by (induction toks rule: token_strs.induct) auto

lemma get_args_set:
  "set (get_args R self) = {n \<in> R. PStr n \<in> set (tokens self)}"
  by (auto simp: get_args_def token_strs_mem)

lemma get_args_sorted: "sorted (get_args R self)"
  by (simp add: get_args_def)

lemma get_args_distinct: "distinct (get_args R self)"
  by (simp add: get_args_def)

lemma get_args_filter:
  "get_args R self = sort (remdups (filter (\<lambda>n. n \<in> R) (token_strs (tokens self))))"
proof -
  have "set (token_strs (tokens self)) \<inter> R = set (filter (\<lambda>n. n \<in> R) (token_strs (tokens self)))"
    by auto
  then show ?thesis
    unfolding get_args_def by (simp only: sorted_list_of_set_sort_remdups)
qed

section \<open>The argument list of the compiled function\<close>

lemma sorted_xy: "sorted_list_of_set {''x'', ''y''} = [''x'', ''y'']"
proof -
  have "{''x'', ''y''} = set [''x'', ''y'']" by simp
  moreover have "sorted_list_of_set (set [''x'', ''y'']) = sort (remdups [''x'', ''y''])"
    by (rule sorted_list_of_set_sort_remdups)
  moreover have "sort (remdups [''x'', ''y'']) = [''x'', ''y'']"
    by (simp add: less_eq_list_code less_list_code)
  ultimately show ?thesis by (simp only:)
qed

lemma registered_tokens_eq:
  "set (token_strs (tokens self)) \<inter> R = {n \<in> R. PStr n \<in> set (tokens self)}"
  by (auto simp: token_strs_mem)

text \<open>
  C1. The argument list is the sorted list, without repetition, of the registered names
  that are tokens of the builder. When those names are exactly \<open>x\<close> and \<open>y\<close>, the list is
  \<open>["x", "y"]\<close> and the source handed to \<open>eval\<close> starts with \<open>lambda x,y:\<close>, whatever the
  order of the tokens and whatever else is registered.
\<close>

theorem get_args_sorted_registered:
  "get_args R self = sorted_list_of_set {n \<in> R. PStr n \<in> set (tokens self)} \<and>
   set (get_args R self) = {n \<in> R. PStr n \<in> set (tokens self)} \<and>
   sorted (get_args R self) \<and> distinct (get_args R self) \<and>
   ({n \<in> R. PStr n \<in> set (tokens self)} = {''x'', ''y''} \<longrightarrow>
      get_args R self = [''x'', ''y''] \<and>
      (\<forall>body. dunder_str self = Inr body \<longrightarrow>
         eval_source R self = Inr (''lambda x,y:'' @ body)))"
proof (intro conjI impI allI)
  show eq: "get_args R self = sorted_list_of_set {n \<in> R. PStr n \<in> set (tokens self)}"
    by (simp only: get_args_def registered_tokens_eq)
  show "set (get_args R self) = {n \<in> R. PStr n \<in> set (tokens self)}"
    by (rule get_args_set)
  show "sorted (get_args R self)" by (rule get_args_sorted)
  show "distinct (get_args R self)" by (rule get_args_distinct)
  assume xy: "{n \<in> R. PStr n \<in> set (tokens self)} = {''x'', ''y''}"
  show args: "get_args R self = [''x'', ''y'']"
    by (simp only: eq xy sorted_xy)
  fix body
  assume "dunder_str self = Inr body"
  then show "eval_source R self = Inr (''lambda x,y:'' @ body)"
    by (simp add: eval_source_def args)
qed

text \<open>
  The builders \<open>y + x\<close> and \<open>x + y\<close>, with \<open>x\<close>, \<open>y\<close> and \<open>z\<close> registered: both get the
  parameters \<open>x, y\<close>.
\<close>

theorem get_args_sorted_registered_witness:
  "get_args {''y'', ''z'', ''x''}
     (binary Add (LambdaExpr [PStr ''y'']) (Builder (LambdaExpr [PStr ''x''])))
     = [''x'', ''y''] \<and>
   get_args {''y'', ''z'', ''x''}
     (binary Add (LambdaExpr [PStr ''x'']) (Builder (LambdaExpr [PStr ''y''])))
     = [''x'', ''y''] \<and>
   eval_source {''y'', ''z'', ''x''}
     (binary Add (LambdaExpr [PStr ''y'']) (Builder (LambdaExpr [PStr ''x''])))
     = Inr ''lambda x,y:(y)+x''"
proof -
  let ?R = "{''y'', ''z'', ''x''}"
  let ?a = "binary Add (LambdaExpr [PStr ''y'']) (Builder (LambdaExpr [PStr ''x'']))"
  let ?b = "binary Add (LambdaExpr [PStr ''x'']) (Builder (LambdaExpr [PStr ''y'']))"
  have ta: "tokens ?a = [PStr ''('', PStr ''y'', PStr '')'', PStr ''+'', PStr ''x'']"
    by (simp add: binary_def collapse_def LambdaExpr_def)
  have tb: "tokens ?b = [PStr ''('', PStr ''x'', PStr '')'', PStr ''+'', PStr ''y'']"
    by (simp add: binary_def collapse_def LambdaExpr_def)
  have ha: "{n \<in> ?R. PStr n \<in> set (tokens ?a)} = {''x'', ''y''}"
    by (simp only: ta) auto
  have hb: "{n \<in> ?R. PStr n \<in> set (tokens ?b)} = {''x'', ''y''}"
    by (simp only: tb) auto
  have sa: "dunder_str ?a = Inr ''(y)+x''"
    by (simp add: dunder_str_def binary_def collapse_def LambdaExpr_def)
  have A: "get_args ?R ?a = [''x'', ''y''] \<and> eval_source ?R ?a = Inr (''lambda x,y:'' @ ''(y)+x'')"
    using get_args_sorted_registered [of ?R ?a] ha sa by (simp only:) simp
  have B: "get_args ?R ?b = [''x'', ''y'']"
    using get_args_sorted_registered [of ?R ?b] hb by (simp only:) simp
  from A B show ?thesis by simp
qed

section \<open>Rendering\<close>

lemma single_str_elim: "single_str toks \<Longrightarrow> \<exists>s. toks = [PStr s]"
  by (erule single_str.elims) simp

lemma dunder_str_var_shape:
  "var_shape self \<Longrightarrow> dunder_str self = Inr (concat (map py_str (tokens self)))"
proof (cases "cls self = Cls_LambdaExpr")
  case True
  then show ?thesis by (simp add: dunder_str_def)
next
  case False
  assume "var_shape self"
  with False have "single_str (tokens self)" by (simp add: var_shape_def)
  then obtain s where "tokens self = [PStr s]" using single_str_elim by blast
  with False show ?thesis by (simp add: dunder_str_def)
qed

lemma dunder_str_LambdaExpr: "dunder_str (LambdaExpr toks) = Inr (concat (map py_str toks))"
  by (simp add: dunder_str_def LambdaExpr_def)

lemma tokens_LambdaExpr: "tokens (LambdaExpr toks) = toks"
  by (simp add: LambdaExpr_def)

lemma dunder_str_collapse_builder:
  "dunder_str (collapse a (Builder b) [tok]) =
     Inr (''('' @ concat (map py_str (tokens a)) @ '')'' @ tok @ concat (map py_str (tokens b)))"
  by (simp add: collapse_def dunder_str_LambdaExpr)

lemma dunder_str_collapse_literal:
  "dunder_str (collapse a (Literal v) [tok]) =
     Inr (''('' @ concat (map py_str (tokens a)) @ '')'' @ tok @ py_str v)"
  by (simp add: collapse_def dunder_str_LambdaExpr)

text \<open>
  C2. For builders \<open>a\<close> and \<open>b\<close> and any operator token, the text of \<open>_collapse(a, b, op)\<close> is
  \<open>"(" + str(a) + ")" + op + str(b)\<close>, and with a value \<open>v\<close> that is not a builder it is
  \<open>"(" + str(a) + ")" + op + str(v)\<close>; so it is for each of the nineteen comparison and
  arithmetic methods, with the token of the method.
\<close>

theorem render_collapse_compositional:
  assumes "var_shape a" and "var_shape b"
  shows "\<exists>ra rb. dunder_str a = Inr ra \<and> dunder_str b = Inr rb \<and>
    dunder_str (collapse a (Builder b) [tok]) = Inr (''('' @ ra @ '')'' @ tok @ rb) \<and>
    dunder_str (collapse a (Literal v) [tok]) = Inr (''('' @ ra @ '')'' @ tok @ py_str v) \<and>
    dunder_str (binary bop a (Builder b)) = Inr (''('' @ ra @ '')'' @ op_token bop @ rb) \<and>
    dunder_str (binary bop a (Literal v)) = Inr (''('' @ ra @ '')'' @ op_token bop @ py_str v)"
proof -
  let ?ra = "concat (map py_str (tokens a))"
  let ?rb = "concat (map py_str (tokens b))"
  have "dunder_str a = Inr ?ra" using assms(1) by (rule dunder_str_var_shape)
  moreover have "dunder_str b = Inr ?rb" using assms(2) by (rule dunder_str_var_shape)
  moreover note dunder_str_collapse_builder [of a b tok] dunder_str_collapse_literal [of a v tok]
  moreover have "dunder_str (binary bop a (Builder b)) = Inr (''('' @ ?ra @ '')'' @ op_token bop @ ?rb)"
    unfolding binary_def by (rule dunder_str_collapse_builder)
  moreover have "dunder_str (binary bop a (Literal v)) = Inr (''('' @ ?ra @ '')'' @ op_token bop @ py_str v)"
    unfolding binary_def by (rule dunder_str_collapse_literal)
  ultimately show ?thesis by blast
qed

text \<open>
  With the placeholders \<open>x\<close> and \<open>y\<close> as \<open>LambdaVar\<close> leaves them: \<open>x - y\<close> is \<open>(x)-y\<close>, as in
  the doctest of \<open>__str__\<close>, and \<open>x - 1\<close> is \<open>(x)-1\<close>.
\<close>

theorem render_collapse_compositional_witness:
  "var_shape \<lparr>cls = Cls_LambdaVar, tokens = [PStr ''x''], lambda_slot = Patcher\<rparr> \<and>
   var_shape \<lparr>cls = Cls_LambdaVar, tokens = [PStr ''y''], lambda_slot = Patcher\<rparr> \<and>
   dunder_str (binary Sub \<lparr>cls = Cls_LambdaVar, tokens = [PStr ''x''], lambda_slot = Patcher\<rparr>
      (Builder \<lparr>cls = Cls_LambdaVar, tokens = [PStr ''y''], lambda_slot = Patcher\<rparr>)) = Inr ''(x)-y'' \<and>
   dunder_str (binary Sub \<lparr>cls = Cls_LambdaVar, tokens = [PStr ''x''], lambda_slot = Patcher\<rparr>
      (Literal (PInt 1))) = Inr ''(x)-1''"
proof -
  let ?x = "\<lparr>cls = Cls_LambdaVar, tokens = [PStr ''x''], lambda_slot = Patcher\<rparr>"
  let ?y = "\<lparr>cls = Cls_LambdaVar, tokens = [PStr ''y''], lambda_slot = Patcher\<rparr>"
  have vx: "var_shape ?x" by (simp add: var_shape_def)
  have vy: "var_shape ?y" by (simp add: var_shape_def)
  have sx: "dunder_str ?x = Inr ''x''" by (simp add: dunder_str_def)
  have sy: "dunder_str ?y = Inr ''y''" by (simp add: dunder_str_def)
  have one: "py_str (PInt 1) = ''1''"
    by (simp add: str_int_def str_nat.simps digit_char_def)
  from render_collapse_compositional [OF vx vy, of "''-''" "PInt 1" Sub]
  have "dunder_str (binary Sub ?x (Builder ?y)) = Inr (''('' @ ''x'' @ '')'' @ op_token Sub @ ''y'') \<and>
        dunder_str (binary Sub ?x (Literal (PInt 1))) = Inr (''('' @ ''x'' @ '')'' @ op_token Sub @ py_str (PInt 1))"
    by (simp only: sx sy sum.inject) blast
  with vx vy one show ?thesis by simp
qed

section \<open>\<open>divmod\<close> and \<open>round\<close>\<close>

text \<open>
  C9. \<open>__divmod__\<close> does not use its right operand: the result has the tokens
  \<open>divmod(\<close>, those of \<open>a\<close>, and \<open>)\<close>, whatever the operand is, and its text is
  \<open>"divmod(" + str(a) + ")"\<close>.
\<close>

theorem divmod_ignores_operand:
  assumes "var_shape a"
  shows "\<exists>ra. dunder_str a = Inr ra \<and>
    dunder_str (dunder_divmod a b) = Inr (''divmod('' @ ra @ '')'') \<and>
    tokens (dunder_divmod a b) = [PStr ''divmod(''] @ tokens a @ [PStr '')''] \<and>
    dunder_divmod a b = dunder_divmod a b'"
proof -
  have "dunder_str a = Inr (concat (map py_str (tokens a)))"
    using assms by (rule dunder_str_var_shape)
  moreover have "dunder_str (dunder_divmod a b) = Inr (''divmod('' @ concat (map py_str (tokens a)) @ '')'')"
    by (simp add: dunder_divmod_def dunder_str_LambdaExpr)
  moreover have "tokens (dunder_divmod a b) = [PStr ''divmod(''] @ tokens a @ [PStr '')'']"
    by (simp add: dunder_divmod_def tokens_LambdaExpr)
  moreover have "dunder_divmod a b = dunder_divmod a b'"
    by (simp add: dunder_divmod_def)
  ultimately show ?thesis by blast
qed

text \<open>\<open>divmod(x, y)\<close> and \<open>divmod(x, 7)\<close> are the same builder, with the text \<open>divmod(x)\<close>.\<close>

theorem divmod_ignores_operand_witness:
  "var_shape \<lparr>cls = Cls_LambdaVar, tokens = [PStr ''x''], lambda_slot = Patcher\<rparr> \<and>
   dunder_str (dunder_divmod \<lparr>cls = Cls_LambdaVar, tokens = [PStr ''x''], lambda_slot = Patcher\<rparr>
      (Builder (LambdaExpr [PStr ''y'']))) = Inr ''divmod(x)'' \<and>
   dunder_divmod \<lparr>cls = Cls_LambdaVar, tokens = [PStr ''x''], lambda_slot = Patcher\<rparr>
      (Builder (LambdaExpr [PStr ''y''])) =
   dunder_divmod \<lparr>cls = Cls_LambdaVar, tokens = [PStr ''x''], lambda_slot = Patcher\<rparr>
      (Literal (PInt 7))"
proof -
  let ?x = "\<lparr>cls = Cls_LambdaVar, tokens = [PStr ''x''], lambda_slot = Patcher\<rparr>"
  have vx: "var_shape ?x" by (simp add: var_shape_def)
  have sx: "dunder_str ?x = Inr ''x''" by (simp add: dunder_str_def)
  from divmod_ignores_operand [OF vx, of "Builder (LambdaExpr [PStr ''y''])" "Literal (PInt 7)"]
  have AB: "dunder_str (dunder_divmod ?x (Builder (LambdaExpr [PStr ''y'']))) = Inr (''divmod('' @ ''x'' @ '')'') \<and>
        dunder_divmod ?x (Builder (LambdaExpr [PStr ''y''])) = dunder_divmod ?x (Literal (PInt 7))"
    by (simp only: sx sum.inject) blast
  from AB have "dunder_str (dunder_divmod ?x (Builder (LambdaExpr [PStr ''y'']))) = Inr (''divmod('' @ ''x'' @ '')'')"
    by (rule conjunct1)
  then have A: "dunder_str (dunder_divmod ?x (Builder (LambdaExpr [PStr ''y'']))) = Inr ''divmod(x)''"
    by simp
  from AB have B: "dunder_divmod ?x (Builder (LambdaExpr [PStr ''y''])) = dunder_divmod ?x (Literal (PInt 7))"
    by (rule conjunct2)
  from vx A B show ?thesis by blast
qed

text \<open>
  C10. \<open>round(a)\<close> without a precision stores the default \<open>None\<close> as a token, so the text is
  \<open>"round(" + str(a) + ",None)"\<close>; \<open>round(a, n)\<close> with an integer \<open>n\<close> has the text
  \<open>"round(" + str(a) + "," + str(n) + ")"\<close>.
\<close>

theorem round_precision_slot:
  assumes "var_shape a"
  shows "\<exists>ra. dunder_str a = Inr ra \<and>
    dunder_str (round_default a) = Inr (''round('' @ ra @ '',None)'') \<and>
    PNone \<in> set (tokens (round_default a)) \<and>
    dunder_str (dunder_round a (Literal (PInt n))) = Inr (''round('' @ ra @ '','' @ py_str (PInt n) @ '')'')"
proof -
  have "dunder_str a = Inr (concat (map py_str (tokens a)))"
    using assms by (rule dunder_str_var_shape)
  moreover have "dunder_str (round_default a) = Inr (''round('' @ concat (map py_str (tokens a)) @ '',None)'')"
    by (simp add: round_default_def dunder_round_def dunder_str_LambdaExpr)
  moreover have "PNone \<in> set (tokens (round_default a))"
    by (simp add: round_default_def dunder_round_def tokens_LambdaExpr)
  moreover have "dunder_str (dunder_round a (Literal (PInt n))) =
      Inr (''round('' @ concat (map py_str (tokens a)) @ '','' @ py_str (PInt n) @ '')'')"
    by (simp add: dunder_round_def dunder_str_LambdaExpr)
  ultimately show ?thesis by blast
qed

text \<open>\<open>round(x)\<close> is \<open>round(x,None)\<close> and \<open>round(x, -12)\<close> is \<open>round(x,-12)\<close>.\<close>

theorem round_precision_slot_witness:
  "var_shape \<lparr>cls = Cls_LambdaVar, tokens = [PStr ''x''], lambda_slot = Patcher\<rparr> \<and>
   dunder_str (round_default \<lparr>cls = Cls_LambdaVar, tokens = [PStr ''x''], lambda_slot = Patcher\<rparr>)
     = Inr ''round(x,None)'' \<and>
   dunder_str (dunder_round \<lparr>cls = Cls_LambdaVar, tokens = [PStr ''x''], lambda_slot = Patcher\<rparr>
      (Literal (PInt (- 12)))) = Inr ''round(x,-12)''"
proof -
  let ?x = "\<lparr>cls = Cls_LambdaVar, tokens = [PStr ''x''], lambda_slot = Patcher\<rparr>"
  have vx: "var_shape ?x" by (simp add: var_shape_def)
  have sx: "dunder_str ?x = Inr ''x''" by (simp add: dunder_str_def)
  have n: "py_str (PInt (- 12)) = ''-12''"
    by (simp add: str_int_def str_nat.simps digit_char_def)
  from round_precision_slot [OF vx, of "- 12"]
  have "dunder_str (round_default ?x) = Inr (''round('' @ ''x'' @ '',None)'') \<and>
        dunder_str (dunder_round ?x (Literal (PInt (- 12)))) =
          Inr (''round('' @ ''x'' @ '','' @ py_str (PInt (- 12)) @ '')'')"
    by (simp only: sx sum.inject) blast
  with vx n show ?thesis by simp
qed

section \<open>Names that occur inside a token\<close>

lemma get_args_mem: "n \<in> set (get_args R self) \<longleftrightarrow> n \<in> R \<and> PStr n \<in> set (tokens self)"
  by (simp add: get_args_set)

text \<open>
  C3, as the claim states it, fails: with \<open>x\<close> and \<open>y\<close> registered, the builder \<open>x[y]\<close> has the
  tokens \<open>(\<close>, \<open>x\<close>, \<open>)[y]\<close>. The name \<open>y\<close> occurs in the token \<open>)[y]\<close> and is no token itself,
  and the argument list is \<open>["x"]\<close>: the source is \<open>lambda x:(x)[y]\<close>.
\<close>

theorem substring_name_counted_counterexample:
  "dunder_getitem (LambdaExpr [PStr ''x'']) (Builder (LambdaExpr [PStr ''y''])) =
     Inr (LambdaExpr [PStr ''('', PStr ''x'', PStr '')[y]'']) \<and>
   ''y'' \<in> {''x'', ''y''} \<and>
   PStr '')[y]'' \<in> set (tokens (LambdaExpr [PStr ''('', PStr ''x'', PStr '')[y]''])) \<and>
   strict_sublist ''y'' (py_str (PStr '')[y]'')) \<and>
   PStr ''y'' \<notin> set (tokens (LambdaExpr [PStr ''('', PStr ''x'', PStr '')[y]''])) \<and>
   ''y'' \<notin> set (get_args {''x'', ''y''} (LambdaExpr [PStr ''('', PStr ''x'', PStr '')[y]''])) \<and>
   eval_source {''x'', ''y''} (LambdaExpr [PStr ''('', PStr ''x'', PStr '')[y]'']) =
     Inr ''lambda x:(x)[y]''"
proof -
  let ?e = "LambdaExpr [PStr ''('', PStr ''x'', PStr '')[y]'']"
  have g: "dunder_getitem (LambdaExpr [PStr ''x'']) (Builder (LambdaExpr [PStr ''y''])) = Inr ?e"
    by (simp add: dunder_getitem_def format_operand_def dunder_str_LambdaExpr tokens_LambdaExpr)
  have sub: "strict_sublist ''y'' (py_str (PStr '')[y]''))"
    by (simp add: strict_sublist_def sublist_Cons_right)
  have args: "get_args {''x'', ''y''} ?e = [''x'']"
    by (simp add: get_args_filter tokens_LambdaExpr)
  have src: "eval_source {''x'', ''y''} ?e = Inr ''lambda x:(x)[y]''"
    by (simp add: eval_source_def args dunder_str_LambdaExpr)
  have toks: "PStr '')[y]'' \<in> set (tokens ?e) \<and> PStr ''y'' \<notin> set (tokens ?e)"
    by (simp add: tokens_LambdaExpr)
  from g sub args src toks show ?thesis by simp
qed

text \<open>
  C3, amended. A registered name that occurs only inside a token, as a proper substring
  of its text, and is not a token itself is not in the argument list: membership of
  the list is membership of the registry together with being a whole token, and the
  list is the parameter list of the source handed to \<open>eval\<close>.
\<close>

theorem substring_name_not_counted:
  assumes "n \<in> R" and "t \<in> set (tokens self)" and "strict_sublist n (py_str t)"
    and "PStr n \<notin> set (tokens self)"
  shows "n \<notin> set (get_args R self) \<and>
    (\<forall>m. m \<in> set (get_args R self) \<longleftrightarrow> m \<in> R \<and> PStr m \<in> set (tokens self)) \<and>
    (\<forall>body. dunder_str self = Inr body \<longrightarrow>
       eval_source R self = Inr (''lambda '' @ join '','' (get_args R self) @ '':'' @ body))"
proof (intro conjI allI impI)
  show "n \<notin> set (get_args R self)"
    using assms(4) by (simp add: get_args_mem)
  show "m \<in> set (get_args R self) \<longleftrightarrow> m \<in> R \<and> PStr m \<in> set (tokens self)" for m
    by (rule get_args_mem)
  show "eval_source R self = Inr (''lambda '' @ join '','' (get_args R self) @ '':'' @ body)"
    if "dunder_str self = Inr body" for body
    using that by (simp add: eval_source_def)
qed

theorem substring_name_not_counted_witness:
  "''y'' \<in> {''x'', ''y''} \<and>
   PStr '')[y]'' \<in> set (tokens (LambdaExpr [PStr ''('', PStr ''x'', PStr '')[y]''])) \<and>
   strict_sublist ''y'' (py_str (PStr '')[y]'')) \<and>
   PStr ''y'' \<notin> set (tokens (LambdaExpr [PStr ''('', PStr ''x'', PStr '')[y]''])) \<and>
   ''y'' \<notin> set (get_args {''x'', ''y''} (LambdaExpr [PStr ''('', PStr ''x'', PStr '')[y]'']))"
proof -
  let ?e = "LambdaExpr [PStr ''('', PStr ''x'', PStr '')[y]'']"
  have h1: "''y'' \<in> {''x'', ''y''}" by simp
  have h2: "PStr '')[y]'' \<in> set (tokens ?e)" by (simp add: tokens_LambdaExpr)
  have h3: "strict_sublist ''y'' (py_str (PStr '')[y]''))"
    by (simp add: strict_sublist_def sublist_Cons_right)
  have h4: "PStr ''y'' \<notin> set (tokens ?e)" by (simp add: tokens_LambdaExpr)
  from substring_name_not_counted [OF h1 h2 h3 h4]
  have "''y'' \<notin> set (get_args {''x'', ''y''} ?e)" by (rule conjunct1)
  with h1 h2 h3 h4 show ?thesis by blast
qed

section \<open>The call-style combinator raises at once\<close>

lemma args_rest_list_all:
  "(list_all isinstance_str args \<longrightarrow> (\<exists>ts. args_rest args = Inr ts)) \<and>
   (\<not> list_all isinstance_str args \<longrightarrow> (\<exists>v. args_rest args = Inl (TypeError_positional v)))"
  by (induction args) auto

lemma args_rest_bad:
  "\<exists>a \<in> set args. \<not> isinstance_str a \<Longrightarrow> \<exists>v. args_rest args = Inl (TypeError_positional v)"
  using args_rest_list_all [of args] by (simp add: list_all_iff)

lemma args_rest_good:
  "\<forall>a \<in> set args. isinstance_str a \<Longrightarrow> \<exists>ts. args_rest args = Inr ts"
  using args_rest_list_all [of args] by (simp add: list_all_iff)

lemma args_formatter_bad:
  "\<exists>a \<in> set args. \<not> isinstance_str a \<Longrightarrow> \<exists>v. args_formatter args = Inl (TypeError_positional v)"
proof (cases args)
  case Nil
  assume "\<exists>a \<in> set args. \<not> isinstance_str a"
  with Nil show ?thesis by simp
next
  case (Cons arg it)
  assume bad: "\<exists>a \<in> set args. \<not> isinstance_str a"
  show ?thesis
  proof (cases "isinstance_str arg")
    case False
    with Cons show ?thesis by (simp add: args_formatter_def)
  next
    case True
    with bad Cons have "\<exists>a \<in> set it. \<not> isinstance_str a" by auto
    then obtain v where "args_rest it = Inl (TypeError_positional v)"
      using args_rest_bad by blast
    with Cons True show ?thesis by (simp add: args_formatter_def)
  qed
qed

lemma args_formatter_good:
  "\<forall>a \<in> set args. isinstance_str a \<Longrightarrow> \<exists>ts. args_formatter args = Inr ts"
proof (cases args)
  case Nil
  then show ?thesis by (simp add: args_formatter_def)
next
  case (Cons arg it)
  assume good: "\<forall>a \<in> set args. isinstance_str a"
  with Cons have "\<forall>a \<in> set it. isinstance_str a" by simp
  then obtain ts where "args_rest it = Inr ts" using args_rest_good by blast
  with Cons good show ?thesis by (simp add: args_formatter_def)
qed

lemma kwargs_rest_list_all:
  "\<not> list_all (\<lambda>kv. isinstance_str (snd kv)) kwargs \<longrightarrow>
     (\<exists>k v. kwargs_rest kwargs = Inl (TypeError_kwarg k v))"
  by (induction kwargs) (auto split: sum.splits)

lemma kwargs_rest_bad:
  "\<exists>kv \<in> set kwargs. \<not> isinstance_str (snd kv) \<Longrightarrow> \<exists>k v. kwargs_rest kwargs = Inl (TypeError_kwarg k v)"
  using kwargs_rest_list_all [of kwargs] by (simp add: list_all_iff)

lemma kwargs_formatter_bad:
  "\<exists>kv \<in> set kwargs. \<not> isinstance_str (snd kv) \<Longrightarrow>
     \<exists>k v. kwargs_formatter c kwargs = Inl (TypeError_kwarg k v)"
proof (cases kwargs)
  case Nil
  assume "\<exists>kv \<in> set kwargs. \<not> isinstance_str (snd kv)"
  with Nil show ?thesis by simp
next
  case (Cons kv it)
  obtain k v where kv: "kv = (k, v)" by (cases kv)
  assume bad: "\<exists>kv \<in> set kwargs. \<not> isinstance_str (snd kv)"
  show ?thesis
  proof (cases "isinstance_str v")
    case False
    with Cons kv show ?thesis by (simp add: kwargs_formatter_def)
  next
    case True
    with bad Cons kv have "\<exists>kv \<in> set it. \<not> isinstance_str (snd kv)" by auto
    then obtain k' v' where "kwargs_rest it = Inl (TypeError_kwarg k' v')"
      using kwargs_rest_bad by blast
    with Cons kv True show ?thesis by (simp add: kwargs_formatter_def)
  qed
qed

text \<open>
  C6. If a positional argument or the value of a keyword argument of \<open>_\<close> is not a string,
  \<open>_\<close> itself raises \<open>TypeError\<close>: it returns no builder, and neither the registry nor \<open>eval\<close>
  takes part.
\<close>

theorem underscore_rejects_non_str:
  assumes "(\<exists>a \<in> set args. \<not> isinstance_str a) \<or> (\<exists>kv \<in> set kwargs. \<not> isinstance_str (snd kv))"
  shows "\<exists>e. underscore self args kwargs = Inl e \<and> is_TypeError e"
proof (cases "\<exists>a \<in> set args. \<not> isinstance_str a")
  case True
  then obtain v where "args_formatter args = Inl (TypeError_positional v)"
    using args_formatter_bad by blast
  then show ?thesis by (simp add: underscore_def)
next
  case False
  then have "\<forall>a \<in> set args. isinstance_str a" by simp
  then obtain ts where ts: "args_formatter args = Inr ts"
    using args_formatter_good by blast
  from False assms have "\<exists>kv \<in> set kwargs. \<not> isinstance_str (snd kv)" by blast
  then obtain k v where "kwargs_formatter (args \<noteq> []) kwargs = Inl (TypeError_kwarg k v)"
    using kwargs_formatter_bad by blast
  with ts show ?thesis by (simp add: underscore_def)
qed

text \<open>
  Scenario 5 of the specification, \<open>x._(4)\<close>, and a keyword argument with the value \<open>23\<close>
  after a well-typed positional argument.
\<close>

theorem underscore_rejects_non_str_witness:
  "(\<exists>a \<in> set [PInt 4]. \<not> isinstance_str a) \<and>
   underscore (LambdaExpr [PStr ''x'']) [PInt 4] [] = Inl (TypeError_positional (PInt 4)) \<and>
   (\<exists>kv \<in> set [(''k'', PInt 23)]. \<not> isinstance_str (snd kv)) \<and>
   underscore (LambdaExpr [PStr ''x'']) [PStr ''4''] [(''k'', PInt 23)] = Inl (TypeError_kwarg ''k'' (PInt 23))"
proof -
  have h1: "(\<exists>a \<in> set [PInt 4]. \<not> isinstance_str a) \<or> (\<exists>kv \<in> set []. \<not> isinstance_str (snd kv))"
    by simp
  have h2: "(\<exists>a \<in> set [PStr ''4'']. \<not> isinstance_str a) \<or>
            (\<exists>kv \<in> set [(''k'', PInt 23)]. \<not> isinstance_str (snd kv))"
    by simp
  from underscore_rejects_non_str [OF h1, of "LambdaExpr [PStr ''x'']"]
  obtain e1 where e1: "underscore (LambdaExpr [PStr ''x'']) [PInt 4] [] = Inl e1" by blast
  have v1: "underscore (LambdaExpr [PStr ''x'']) [PInt 4] [] = Inl (TypeError_positional (PInt 4))"
    by (simp add: underscore_def args_formatter_def)
  from underscore_rejects_non_str [OF h2, of "LambdaExpr [PStr ''x'']"]
  obtain e2 where e2: "underscore (LambdaExpr [PStr ''x'']) [PStr ''4''] [(''k'', PInt 23)] = Inl e2"
    by blast
  have v2: "underscore (LambdaExpr [PStr ''x'']) [PStr ''4''] [(''k'', PInt 23)] =
      Inl (TypeError_kwarg ''k'' (PInt 23))"
    by (simp add: underscore_def args_formatter_def kwargs_formatter_def)
  from e1 e2 v1 v2 show ?thesis by simp
qed

text \<open>The doctests of \<open>_\<close>: with string arguments the builder is produced.\<close>

lemma underscore_doctest:
  "map_sum id dunder_repr
     (underscore (LambdaExpr [PStr ''x'']) [PStr ''4'', PStr ''a''] [(''k'', PStr ''23''), (''www'', PStr ''32'')])
     = Inr ''(x)(4,a,k=23,www=32)'' \<and>
   map_sum id dunder_repr (underscore (LambdaExpr [PStr ''x'']) [] [(''k'', PStr ''23''), (''www'', PStr ''32'')])
     = Inr ''(x)(k=23,www=32)'' \<and>
   map_sum id dunder_repr (underscore (LambdaExpr [PStr ''x'']) [] []) = Inr ''(x)()''"
  by (simp add: underscore_def args_formatter_def kwargs_formatter_def dunder_repr_def tokens_LambdaExpr)

section \<open>What every step preserves\<close>

lemma evolves_refl: "evolves s s"
  by (simp add: evolves_def)

lemma evolves_trans: "evolves s s' \<Longrightarrow> evolves s' s'' \<Longrightarrow> evolves s s''"
  unfolding evolves_def by (intro conjI; fastforce)

lemma evolves_eval_calls: "evolves s (s\<lparr>eval_calls := k\<rparr>)"
  by (simp add: evolves_def)

lemma evolves_world: "evolves s (s\<lparr>world := w\<rparr>)"
  by (simp add: evolves_def)

lemma evolves_apply_callable: "evolves s (snd (apply_callable f args kwargs s))"
  by (simp add: apply_callable_def evolves_world split: prod.splits)

lemma evolves_alloc: "evolves s (snd (alloc obj s))"
  by (simp add: evolves_def alloc_def nth_append)

lemma evolves_LambdaVar: "evolves s (snd (LambdaVar py name s))"
  by (auto simp: evolves_def LambdaVar_def nth_append)

lemma evolves_LambdaArgs: "evolves s (snd (LambdaArgs s))"
  by (auto simp: evolves_def LambdaArgs_def nth_append split: option.splits)

lemma evolves_LambdaKwargs: "evolves s (snd (LambdaKwargs s))"
  by (auto simp: evolves_def LambdaKwargs_def nth_append split: option.splits)

lemma evolves_compile:
  assumes "a < length (heap s)" and "\<forall>g. lambda_slot (heap s ! a) \<noteq> Compiled g"
  shows "evolves s (s\<lparr>heap := (heap s)[a := (heap s ! a)\<lparr>lambda_slot := Compiled f\<rparr>], eval_calls := k\<rparr>)"
  using assms by (auto simp: evolves_def nth_list_update)

lemma evolves_eval_lambda:
  assumes "\<forall>self. deref s a = Some self \<longrightarrow> (\<forall>g. lambda_slot self \<noteq> Compiled g)"
  shows "evolves s (snd (eval_lambda py a s))"
proof (cases "deref s a")
  case None
  then show ?thesis by (simp add: eval_lambda_def evolves_refl)
next
  case (Some self)
  then have a: "a < length (heap s)" and self: "self = heap s ! a"
    by (auto simp: deref_def split: if_splits)
  from assms Some have slot: "\<forall>g. lambda_slot (heap s ! a) \<noteq> Compiled g"
    using self by simp
  show ?thesis
  proof (cases "eval_source (registered_vars s) self")
    case (Inl e)
    with Some show ?thesis by (simp add: eval_lambda_def evolves_refl)
  next
    case (Inr src)
    show ?thesis
    proof (cases "builtins_eval py src")
      case (Inl e)
      with Some Inr show ?thesis by (simp add: eval_lambda_def evolves_eval_calls)
    next
      case Inr2: (Inr f)
      with Some Inr show ?thesis
        using evolves_compile [OF a slot] by (simp add: eval_lambda_def self)
    qed
  qed
qed

lemma evolves_call_monkey_patcher:
  assumes "evolves s (snd (eval_lambda py a s))"
  shows "evolves s (snd (call_monkey_patcher py a args kwargs s))"
proof (cases "rebinds_self kwargs")
  case True
  then show ?thesis by (simp add: call_monkey_patcher_def evolves_refl)
next
  case False
  obtain r s' where e: "eval_lambda py a s = (r, s')" by (cases "eval_lambda py a s")
  with assms have s': "evolves s s'" by simp
  show ?thesis
  proof (cases r)
    case (Inl err)
    with False e s' show ?thesis by (simp add: call_monkey_patcher_def)
  next
    case (Inr f)
    have "evolves s' (snd (apply_callable f args kwargs s'))" by (rule evolves_apply_callable)
    with s' have "evolves s (snd (apply_callable f args kwargs s'))" by (rule evolves_trans)
    with False e Inr show ?thesis by (simp add: call_monkey_patcher_def)
  qed
qed

lemma deref_alloc_new: "deref (snd (alloc obj s)) (fst (alloc obj s)) = Some obj"
  by (simp add: deref_def alloc_def)

lemma evolves_dunder_call: "evolves s (snd (dunder_call py a args kwargs s))"
proof (cases "rebinds_self kwargs")
  case True
  then show ?thesis by (simp add: dunder_call_def evolves_refl)
next
  case no_self: False
  show ?thesis
  proof (cases "deref s a")
    case None
    with no_self show ?thesis by (simp add: dunder_call_def evolves_refl)
  next
    case (Some self)
    show ?thesis
    proof (cases "lambda_slot self")
      case Unset
      let ?obj = "dunder_getattr self ''_lambda''"
      let ?b = "fst (alloc ?obj s)"
      let ?s1 = "snd (alloc ?obj s)"
      have "deref ?s1 ?b = Some ?obj" by (rule deref_alloc_new)
      moreover have "\<forall>g. lambda_slot ?obj \<noteq> Compiled g"
        by (simp add: dunder_getattr_def LambdaExpr_def)
      ultimately have "evolves ?s1 (snd (eval_lambda py ?b ?s1))"
        by (intro evolves_eval_lambda) simp
      then have "evolves ?s1 (snd (call_monkey_patcher py ?b args kwargs ?s1))"
        by (rule evolves_call_monkey_patcher)
      with evolves_alloc [of s ?obj]
      have "evolves s (snd (call_monkey_patcher py ?b args kwargs ?s1))"
        by (rule evolves_trans)
      with no_self Some Unset show ?thesis
        by (auto simp add: dunder_call_def split: prod.splits)
    next
      case Patcher
      with Some have "evolves s (snd (eval_lambda py a s))"
        by (intro evolves_eval_lambda) simp
      then have "evolves s (snd (call_monkey_patcher py a args kwargs s))"
        by (rule evolves_call_monkey_patcher)
      with no_self Some Patcher show ?thesis by (simp add: dunder_call_def)
    next
      case (Compiled f)
      with no_self Some show ?thesis by (simp add: dunder_call_def evolves_apply_callable)
    qed
  qed
qed

lemma evolves_step: "evolves s (step py act s)"
  by (cases act)
     (simp_all add: evolves_LambdaVar evolves_LambdaArgs evolves_LambdaKwargs evolves_alloc
        evolves_dunder_call)

lemma evolves_run: "evolves s (run py acts s)"
proof (induction acts arbitrary: s)
  case Nil
  show ?case by (simp add: evolves_refl)
next
  case (Cons act acts)
  have "evolves s (step py act s)" by (rule evolves_step)
  moreover have "evolves (step py act s) (run py acts (step py act s))" by (rule Cons.IH)
  ultimately show ?case by (simp add: evolves_trans)
qed

lemma evolves_registered: "evolves s s' \<Longrightarrow> n \<in> registered_vars s \<Longrightarrow> n \<in> registered_vars s'"
  by (auto simp: evolves_def)

lemma evolves_deref:
  assumes "evolves s s'" and "deref s a = Some obj"
  shows "\<exists>obj'. deref s' a = Some obj' \<and> cls obj' = cls obj \<and> tokens obj' = tokens obj \<and>
    (\<forall>f. lambda_slot obj = Compiled f \<longrightarrow> lambda_slot obj' = Compiled f)"
proof -
  from assms(2) have a: "a < length (heap s)" and obj: "obj = heap s ! a"
    by (auto simp: deref_def split: if_splits)
  from assms(1) a have "a < length (heap s')" by (simp add: evolves_def)
  then have "deref s' a = Some (heap s' ! a)" by (simp add: deref_def)
  moreover from assms(1) a have "cls (heap s' ! a) = cls (heap s ! a)"
    and "tokens (heap s' ! a) = tokens (heap s ! a)"
    and "\<forall>f. lambda_slot (heap s ! a) = Compiled f \<longrightarrow> lambda_slot (heap s' ! a) = Compiled f"
    by (simp_all add: evolves_def)
  ultimately show ?thesis using obj by simp
qed

section \<open>The names in the registry\<close>

lemma registered_eval_lambda: "registered_vars (snd (eval_lambda py a s)) = registered_vars s"
  by (simp add: eval_lambda_def split: option.splits sum.splits)

lemma registered_apply_callable:
  "registered_vars (snd (apply_callable f args kwargs s)) = registered_vars s"
  by (simp add: apply_callable_def split: prod.splits)

lemma registered_call_monkey_patcher:
  "registered_vars (snd (call_monkey_patcher py a args kwargs s)) = registered_vars s"
proof -
  obtain r s' where e: "eval_lambda py a s = (r, s')" by (cases "eval_lambda py a s")
  then have "registered_vars s' = registered_vars s"
    using registered_eval_lambda [of py a s] by simp
  with e show ?thesis
    by (cases r) (simp_all add: call_monkey_patcher_def registered_apply_callable)
qed

lemma registered_dunder_call:
  "registered_vars (snd (dunder_call py a args kwargs s)) = registered_vars s"
proof (cases "rebinds_self kwargs")
  case True
  then show ?thesis by (simp add: dunder_call_def)
next
  case no_self: False
  show ?thesis
  proof (cases "deref s a")
    case None
    with no_self show ?thesis by (simp add: dunder_call_def)
  next
    case (Some self)
    show ?thesis
    proof (cases "lambda_slot self")
      case Unset
      obtain b s1 where al: "alloc (dunder_getattr self ''_lambda'') s = (b, s1)"
        by (cases "alloc (dunder_getattr self ''_lambda'') s")
      then have "registered_vars s1 = registered_vars s"
        by (auto simp: alloc_def)
      with no_self Some Unset al show ?thesis
        by (simp add: dunder_call_def registered_call_monkey_patcher)
    next
      case Patcher
      with no_self Some show ?thesis
        by (simp add: dunder_call_def registered_call_monkey_patcher)
    next
      case (Compiled f)
      with no_self Some show ?thesis
        by (simp add: dunder_call_def registered_apply_callable)
    qed
  qed
qed

lemma names_accepted_step: "names_accepted py s \<Longrightarrow> names_accepted py (step py act s)"
proof (cases act)
  case (New_LambdaVar name)
  assume "names_accepted py s"
  with New_LambdaVar show ?thesis by (auto simp: names_accepted_def LambdaVar_def)
next
  case New_LambdaArgs
  assume "names_accepted py s"
  with New_LambdaArgs show ?thesis
    by (auto simp: names_accepted_def LambdaArgs_def split: option.splits)
next
  case New_LambdaKwargs
  assume "names_accepted py s"
  with New_LambdaKwargs show ?thesis
    by (auto simp: names_accepted_def LambdaKwargs_def split: option.splits)
next
  case (New_LambdaExpr toks)
  assume "names_accepted py s"
  with New_LambdaExpr show ?thesis by (simp add: names_accepted_def alloc_def)
next
  case (Call a args kwargs)
  assume "names_accepted py s"
  with Call show ?thesis by (simp add: names_accepted_def registered_dunder_call)
qed

lemma names_accepted_run: "names_accepted py s \<Longrightarrow> names_accepted py (run py acts s)"
  by (induction acts arbitrary: s) (simp_all add: names_accepted_step)

lemma names_accepted_init: "names_accepted py init_state"
  by (simp add: names_accepted_def init_state_def)

section \<open>Placeholders\<close>

lemma LambdaVar_registered:
  "n \<in> registered_vars s \<Longrightarrow> LambdaVar py n s = (Inl (NameError_already_created n), s)"
  by (simp add: LambdaVar_def)

text \<open>
  C4. For a name \<open>n\<close> that is an identifier, is no keyword and is not registered,
  \<open>LambdaVar(n)\<close> returns a new object with the one token \<open>n\<close> and registers \<open>n\<close>. After any
  further steps of the program, \<open>LambdaVar(n)\<close> raises the \<open>NameError\<close> of a name already
  created and leaves the state as it was; \<open>n\<close> is still registered and the first object
  still has its class and its token.
\<close>

theorem LambdaVar_succeeds_once:
  assumes "str_isidentifier py n" and "\<not> keyword_iskeyword py n" and "n \<notin> registered_vars s"
  shows "\<exists>a s1. LambdaVar py n s = (Inr a, s1) \<and>
    registered_vars s1 = insert n (registered_vars s) \<and>
    deref s a = None \<and>
    deref s1 a = Some \<lparr>cls = Cls_LambdaVar, tokens = [PStr n], lambda_slot = Patcher\<rparr> \<and>
    (\<forall>acts. LambdaVar py n (run py acts s1) = (Inl (NameError_already_created n), run py acts s1) \<and>
       n \<in> registered_vars (run py acts s1) \<and>
       (\<exists>obj. deref (run py acts s1) a = Some obj \<and> cls obj = Cls_LambdaVar \<and> tokens obj = [PStr n]))"
proof -
  let ?obj = "\<lparr>cls = Cls_LambdaVar, tokens = [PStr n], lambda_slot = Patcher\<rparr>"
  let ?a = "length (heap s)"
  let ?s1 = "s\<lparr>registered_vars := insert n (registered_vars s), heap := heap s @ [?obj]\<rparr>"
  have new: "LambdaVar py n s = (Inr ?a, ?s1)"
    using assms by (simp add: LambdaVar_def)
  have reg: "registered_vars ?s1 = insert n (registered_vars s)" by simp
  have fresh: "deref s ?a = None" by (simp add: deref_def)
  have obj: "deref ?s1 ?a = Some ?obj" by (simp add: deref_def)
  have later: "LambdaVar py n (run py acts ?s1) = (Inl (NameError_already_created n), run py acts ?s1) \<and>
       n \<in> registered_vars (run py acts ?s1) \<and>
       (\<exists>obj. deref (run py acts ?s1) ?a = Some obj \<and> cls obj = Cls_LambdaVar \<and> tokens obj = [PStr n])"
    for acts
  proof -
    have ev: "evolves ?s1 (run py acts ?s1)" by (rule evolves_run)
    have n: "n \<in> registered_vars (run py acts ?s1)"
      using ev by (rule evolves_registered) simp
    from evolves_deref [OF ev obj]
    have "\<exists>obj. deref (run py acts ?s1) ?a = Some obj \<and> cls obj = Cls_LambdaVar \<and> tokens obj = [PStr n]"
      by auto
    with n show ?thesis by (simp add: LambdaVar_registered)
  qed
  from new reg fresh obj later show ?thesis by blast
qed

text \<open>
  Scenario 4: \<open>x\<close> is registered in the initial state; after \<open>LambdaArgs()\<close> and
  \<open>LambdaVar('y')\<close> a second \<open>LambdaVar('x')\<close> fails, and the object of the first is there.
\<close>

theorem LambdaVar_succeeds_once_witness:
  "str_isidentifier example_python ''x'' \<and> \<not> keyword_iskeyword example_python ''x'' \<and>
   ''x'' \<notin> registered_vars init_state \<and>
   fst (LambdaVar example_python ''x'' init_state) = Inr 0 \<and>
   fst (LambdaVar example_python ''x''
     (run example_python [New_LambdaArgs, New_LambdaVar ''y'']
        (snd (LambdaVar example_python ''x'' init_state))))
     = Inl (NameError_already_created ''x'') \<and>
   map_option tokens (deref (run example_python [New_LambdaArgs, New_LambdaVar ''y'']
        (snd (LambdaVar example_python ''x'' init_state))) 0) = Some [PStr ''x'']"
proof -
  have h1: "str_isidentifier example_python ''x''"
    by (simp add: example_python_def ascii_isidentifier_def id_start_def)
  have h2: "\<not> keyword_iskeyword example_python ''x''"
    by (simp add: example_python_def kwlist_def)
  have h3: "''x'' \<notin> registered_vars init_state"
    by (simp add: init_state_def)
  from LambdaVar_succeeds_once [OF h1 h2 h3]
  obtain a s1 where new: "LambdaVar example_python ''x'' init_state = (Inr a, s1)"
    and later: "\<And>acts. LambdaVar example_python ''x'' (run example_python acts s1) =
        (Inl (NameError_already_created ''x''), run example_python acts s1) \<and>
       ''x'' \<in> registered_vars (run example_python acts s1) \<and>
       (\<exists>obj. deref (run example_python acts s1) a = Some obj \<and> cls obj = Cls_LambdaVar \<and>
          tokens obj = [PStr ''x''])"
    by blast
  have a: "a = 0" using new h1 h2 h3 by (simp add: LambdaVar_def init_state_def)
  from new have s1: "snd (LambdaVar example_python ''x'' init_state) = s1" by simp
  from later [of "[New_LambdaArgs, New_LambdaVar ''y'']"] a
  have "fst (LambdaVar example_python ''x'' (run example_python [New_LambdaArgs, New_LambdaVar ''y''] s1))
      = Inl (NameError_already_created ''x'') \<and>
    map_option tokens (deref (run example_python [New_LambdaArgs, New_LambdaVar ''y''] s1) 0)
      = Some [PStr ''x'']"
    by auto
  with h1 h2 h3 new a s1 show ?thesis by simp
qed

text \<open>
  C7, as the claim states it, fails: \<open>*args\<close> is no identifier, and once \<open>LambdaArgs()\<close> has
  registered it, \<open>LambdaVar('*args')\<close> raises the \<open>NameError\<close> of a name already created,
  not the one of an invalid identifier, because membership of the registry is tested
  first.
\<close>

theorem LambdaVar_invalid_name_counterexample:
  "\<not> str_isidentifier example_python ''*args'' \<and>
   LambdaVar example_python ''*args'' (snd (LambdaArgs init_state)) =
     (Inl (NameError_already_created ''*args''), snd (LambdaArgs init_state)) \<and>
   fst (LambdaVar example_python ''*args'' (snd (LambdaArgs init_state))) \<noteq>
     Inl (NameError_not_valid_identifier ''*args'') \<and>
   ''*args'' \<in> registered_vars (snd (LambdaVar example_python ''*args'' (snd (LambdaArgs init_state))))"
  by (simp add: example_python_def ascii_isidentifier_def id_start_def LambdaVar_def
      LambdaArgs_def init_state_def)

text \<open>
  C7, amended. For a name that is no identifier or is a keyword, \<open>LambdaVar\<close> raises and
  leaves the state, so the registry, as it was. The error is the one of an invalid
  identifier when the name is not registered, and the one of a name already created
  when it is; in a state that the program reaches from the initial state, such a name
  is registered only if it is \<open>*args\<close> or \<open>**kwargs\<close>.
\<close>

theorem LambdaVar_rejects_invalid_name:
  assumes "\<not> str_isidentifier py n \<or> keyword_iskeyword py n"
  shows "LambdaVar py n s =
      (Inl (if n \<in> registered_vars s then NameError_already_created n
            else NameError_not_valid_identifier n), s) \<and>
    (\<forall>acts. n \<in> registered_vars (run py acts init_state) \<longrightarrow> n = ''*args'' \<or> n = ''**kwargs'')"
proof
  show "LambdaVar py n s =
      (Inl (if n \<in> registered_vars s then NameError_already_created n
            else NameError_not_valid_identifier n), s)"
    using assms by (auto simp: LambdaVar_def)
  show "\<forall>acts. n \<in> registered_vars (run py acts init_state) \<longrightarrow> n = ''*args'' \<or> n = ''**kwargs''"
  proof (intro allI impI)
    fix acts
    assume n: "n \<in> registered_vars (run py acts init_state)"
    have "names_accepted py (run py acts init_state)"
      by (intro names_accepted_run names_accepted_init)
    with n assms show "n = ''*args'' \<or> n = ''**kwargs''"
      by (auto simp: names_accepted_def)
  qed
qed

text \<open>The keyword \<open>lambda\<close> and the text \<open>1x\<close> are refused, and nothing is registered.\<close>

theorem LambdaVar_rejects_invalid_name_witness:
  "keyword_iskeyword example_python ''lambda'' \<and>
   LambdaVar example_python ''lambda'' init_state =
     (Inl (NameError_not_valid_identifier ''lambda''), init_state) \<and>
   str_isidentifier example_python ''1x'' = False \<and>
   LambdaVar example_python ''1x'' (snd (LambdaArgs init_state)) =
     (Inl (NameError_not_valid_identifier ''1x''), snd (LambdaArgs init_state))"
proof -
  have h1: "\<not> str_isidentifier example_python ''lambda'' \<or> keyword_iskeyword example_python ''lambda''"
    by (simp add: example_python_def kwlist_def)
  have h2: "\<not> str_isidentifier example_python ''1x'' \<or> keyword_iskeyword example_python ''1x''"
    by (simp add: example_python_def ascii_isidentifier_def id_start_def)
  have r1: "''lambda'' \<notin> registered_vars init_state" by (simp add: init_state_def)
  have r2: "''1x'' \<notin> registered_vars (snd (LambdaArgs init_state))"
    by (simp add: LambdaArgs_def init_state_def)
  from LambdaVar_rejects_invalid_name [OF h1, of init_state] r1
  have A: "LambdaVar example_python ''lambda'' init_state =
     (Inl (NameError_not_valid_identifier ''lambda''), init_state)"
    by simp
  from LambdaVar_rejects_invalid_name [OF h2, of "snd (LambdaArgs init_state)"] r2
  have B: "LambdaVar example_python ''1x'' (snd (LambdaArgs init_state)) =
     (Inl (NameError_not_valid_identifier ''1x''), snd (LambdaArgs init_state))"
    by simp
  have k1: "keyword_iskeyword example_python ''lambda''"
    by (simp add: example_python_def kwlist_def)
  have k2: "str_isidentifier example_python ''1x'' = False"
    by (simp add: example_python_def ascii_isidentifier_def id_start_def)
  from k1 k2 A B show ?thesis by (intro conjI)
qed

section \<open>The variadic markers\<close>

lemma LambdaArgs_cached: "LambdaArgs_instance s = Some a \<Longrightarrow> LambdaArgs s = (a, s)"
  by (simp add: LambdaArgs_def)

lemma LambdaKwargs_cached: "LambdaKwargs_instance s = Some a \<Longrightarrow> LambdaKwargs s = (a, s)"
  by (simp add: LambdaKwargs_def)

lemma evolves_LambdaArgs_instance:
  "evolves s s' \<Longrightarrow> LambdaArgs_instance s = Some a \<Longrightarrow> LambdaArgs_instance s' = Some a"
  by (simp add: evolves_def)

lemma evolves_LambdaKwargs_instance:
  "evolves s s' \<Longrightarrow> LambdaKwargs_instance s = Some a \<Longrightarrow> LambdaKwargs_instance s' = Some a"
  by (simp add: evolves_def)

lemma LambdaArgs_first:
  assumes "LambdaArgs_instance s = None"
  shows "\<exists>a s1. LambdaArgs s = (a, s1) \<and> deref s a = None \<and>
    deref s1 a = Some \<lparr>cls = Cls_LambdaArgs, tokens = [PStr ''*args''], lambda_slot = Unset\<rparr> \<and>
    LambdaArgs_instance s1 = Some a \<and>
    registered_vars s1 = insert ''*args'' (registered_vars s) \<and>
    (\<forall>acts. LambdaArgs (run py acts s1) = (a, run py acts s1) \<and>
       (\<exists>obj. deref (run py acts s1) a = Some obj \<and> cls obj = Cls_LambdaArgs \<and>
          tokens obj = [PStr ''*args'']))"
proof -
  let ?obj = "\<lparr>cls = Cls_LambdaArgs, tokens = [PStr ''*args''], lambda_slot = Unset\<rparr>"
  let ?a = "length (heap s)"
  let ?s1 = "s\<lparr>heap := heap s @ [?obj], LambdaArgs_instance := Some ?a,
     registered_vars := insert ''*args'' (registered_vars s)\<rparr>"
  have new: "LambdaArgs s = (?a, ?s1)" using assms by (simp add: LambdaArgs_def)
  have fresh: "deref s ?a = None" by (simp add: deref_def)
  have obj: "deref ?s1 ?a = Some ?obj" by (simp add: deref_def)
  have inst: "LambdaArgs_instance ?s1 = Some ?a" by simp
  have reg: "registered_vars ?s1 = insert ''*args'' (registered_vars s)" by simp
  have later: "LambdaArgs (run py acts ?s1) = (?a, run py acts ?s1) \<and>
       (\<exists>obj. deref (run py acts ?s1) ?a = Some obj \<and> cls obj = Cls_LambdaArgs \<and>
          tokens obj = [PStr ''*args''])" for acts
  proof -
    have ev: "evolves ?s1 (run py acts ?s1)" by (rule evolves_run)
    from evolves_LambdaArgs_instance [OF ev inst]
    have "LambdaArgs (run py acts ?s1) = (?a, run py acts ?s1)" by (rule LambdaArgs_cached)
    moreover from evolves_deref [OF ev obj]
    have "\<exists>obj. deref (run py acts ?s1) ?a = Some obj \<and> cls obj = Cls_LambdaArgs \<and>
          tokens obj = [PStr ''*args'']"
      by auto
    ultimately show ?thesis by simp
  qed
  from new fresh obj inst reg later show ?thesis by blast
qed

lemma LambdaKwargs_first:
  assumes "LambdaKwargs_instance s = None"
  shows "\<exists>a s1. LambdaKwargs s = (a, s1) \<and> deref s a = None \<and>
    deref s1 a = Some \<lparr>cls = Cls_LambdaKwargs, tokens = [PStr ''**kwargs''], lambda_slot = Unset\<rparr> \<and>
    LambdaKwargs_instance s1 = Some a \<and>
    registered_vars s1 = insert ''**kwargs'' (registered_vars s) \<and>
    (\<forall>acts. LambdaKwargs (run py acts s1) = (a, run py acts s1) \<and>
       (\<exists>obj. deref (run py acts s1) a = Some obj \<and> cls obj = Cls_LambdaKwargs \<and>
          tokens obj = [PStr ''**kwargs'']))"
proof -
  let ?obj = "\<lparr>cls = Cls_LambdaKwargs, tokens = [PStr ''**kwargs''], lambda_slot = Unset\<rparr>"
  let ?a = "length (heap s)"
  let ?s1 = "s\<lparr>heap := heap s @ [?obj], LambdaKwargs_instance := Some ?a,
     registered_vars := insert ''**kwargs'' (registered_vars s)\<rparr>"
  have new: "LambdaKwargs s = (?a, ?s1)" using assms by (simp add: LambdaKwargs_def)
  have fresh: "deref s ?a = None" by (simp add: deref_def)
  have obj: "deref ?s1 ?a = Some ?obj" by (simp add: deref_def)
  have inst: "LambdaKwargs_instance ?s1 = Some ?a" by simp
  have reg: "registered_vars ?s1 = insert ''**kwargs'' (registered_vars s)" by simp
  have later: "LambdaKwargs (run py acts ?s1) = (?a, run py acts ?s1) \<and>
       (\<exists>obj. deref (run py acts ?s1) ?a = Some obj \<and> cls obj = Cls_LambdaKwargs \<and>
          tokens obj = [PStr ''**kwargs''])" for acts
  proof -
    have ev: "evolves ?s1 (run py acts ?s1)" by (rule evolves_run)
    from evolves_LambdaKwargs_instance [OF ev inst]
    have "LambdaKwargs (run py acts ?s1) = (?a, run py acts ?s1)" by (rule LambdaKwargs_cached)
    moreover from evolves_deref [OF ev obj]
    have "\<exists>obj. deref (run py acts ?s1) ?a = Some obj \<and> cls obj = Cls_LambdaKwargs \<and>
          tokens obj = [PStr ''**kwargs'']"
      by auto
    ultimately show ?thesis by simp
  qed
  from new fresh obj inst reg later show ?thesis by blast
qed

text \<open>
  C8. While a marker class has no instance, its constructor creates a new object with
  the one token \<open>*args\<close> (or \<open>**kwargs\<close>), caches its reference and registers the name.
  After any further steps of the program the constructor returns that same reference
  and changes nothing in the state, and the object still has its token.
\<close>

theorem markers_are_singletons:
  "(LambdaArgs_instance s = None \<longrightarrow>
     (\<exists>a s1. LambdaArgs s = (a, s1) \<and> deref s a = None \<and>
        deref s1 a = Some \<lparr>cls = Cls_LambdaArgs, tokens = [PStr ''*args''], lambda_slot = Unset\<rparr> \<and>
        LambdaArgs_instance s1 = Some a \<and>
        registered_vars s1 = insert ''*args'' (registered_vars s) \<and>
        (\<forall>acts. LambdaArgs (run py acts s1) = (a, run py acts s1) \<and>
           (\<exists>obj. deref (run py acts s1) a = Some obj \<and> cls obj = Cls_LambdaArgs \<and>
              tokens obj = [PStr ''*args''])))) \<and>
   (LambdaKwargs_instance s = None \<longrightarrow>
     (\<exists>a s1. LambdaKwargs s = (a, s1) \<and> deref s a = None \<and>
        deref s1 a = Some \<lparr>cls = Cls_LambdaKwargs, tokens = [PStr ''**kwargs''], lambda_slot = Unset\<rparr> \<and>
        LambdaKwargs_instance s1 = Some a \<and>
        registered_vars s1 = insert ''**kwargs'' (registered_vars s) \<and>
        (\<forall>acts. LambdaKwargs (run py acts s1) = (a, run py acts s1) \<and>
           (\<exists>obj. deref (run py acts s1) a = Some obj \<and> cls obj = Cls_LambdaKwargs \<and>
              tokens obj = [PStr ''**kwargs'']))))"
proof (intro conjI impI)
  assume "LambdaArgs_instance s = None"
  then show "\<exists>a s1. LambdaArgs s = (a, s1) \<and> deref s a = None \<and>
        deref s1 a = Some \<lparr>cls = Cls_LambdaArgs, tokens = [PStr ''*args''], lambda_slot = Unset\<rparr> \<and>
        LambdaArgs_instance s1 = Some a \<and>
        registered_vars s1 = insert ''*args'' (registered_vars s) \<and>
        (\<forall>acts. LambdaArgs (run py acts s1) = (a, run py acts s1) \<and>
           (\<exists>obj. deref (run py acts s1) a = Some obj \<and> cls obj = Cls_LambdaArgs \<and>
              tokens obj = [PStr ''*args'']))"
    by (rule LambdaArgs_first)
next
  assume "LambdaKwargs_instance s = None"
  then show "\<exists>a s1. LambdaKwargs s = (a, s1) \<and> deref s a = None \<and>
        deref s1 a = Some \<lparr>cls = Cls_LambdaKwargs, tokens = [PStr ''**kwargs''], lambda_slot = Unset\<rparr> \<and>
        LambdaKwargs_instance s1 = Some a \<and>
        registered_vars s1 = insert ''**kwargs'' (registered_vars s) \<and>
        (\<forall>acts. LambdaKwargs (run py acts s1) = (a, run py acts s1) \<and>
           (\<exists>obj. deref (run py acts s1) a = Some obj \<and> cls obj = Cls_LambdaKwargs \<and>
              tokens obj = [PStr ''**kwargs'']))"
    by (rule LambdaKwargs_first)
qed

text \<open>
  From the initial state: the first \<open>LambdaArgs()\<close> is object 0; after \<open>LambdaKwargs()\<close>,
  \<open>LambdaVar('x')\<close> and another \<open>LambdaArgs()\<close>, the constructor still answers 0 and the
  state stays as it is. The first \<open>LambdaKwargs()\<close> behaves in the same way.
\<close>

theorem markers_are_singletons_witness:
  "LambdaArgs_instance init_state = None \<and> LambdaKwargs_instance init_state = None \<and>
   fst (LambdaArgs init_state) = 0 \<and>
   LambdaArgs (run example_python [New_LambdaKwargs, New_LambdaVar ''x'', New_LambdaArgs]
      (snd (LambdaArgs init_state))) =
     (0, run example_python [New_LambdaKwargs, New_LambdaVar ''x'', New_LambdaArgs]
      (snd (LambdaArgs init_state))) \<and>
   fst (LambdaKwargs init_state) = 0 \<and>
   LambdaKwargs (run example_python [New_LambdaArgs, New_LambdaKwargs] (snd (LambdaKwargs init_state))) =
     (0, run example_python [New_LambdaArgs, New_LambdaKwargs] (snd (LambdaKwargs init_state)))"
proof -
  let ?acts = "[New_LambdaKwargs, New_LambdaVar ''x'', New_LambdaArgs]"
  let ?acts' = "[New_LambdaArgs, New_LambdaKwargs]"
  have h1: "LambdaArgs_instance init_state = None" by (simp add: init_state_def)
  have h2: "LambdaKwargs_instance init_state = None" by (simp add: init_state_def)
  note inst = markers_are_singletons [of init_state example_python]
  from inst [THEN conjunct1, rule_format, OF h1]
  obtain a s1 where new: "LambdaArgs init_state = (a, s1)"
    and later: "\<forall>acts. LambdaArgs (run example_python acts s1) = (a, run example_python acts s1) \<and>
           (\<exists>obj. deref (run example_python acts s1) a = Some obj \<and> cls obj = Cls_LambdaArgs \<and>
              tokens obj = [PStr ''*args''])"
    by (elim exE conjE)
  from inst [THEN conjunct2, rule_format, OF h2]
  obtain b t1 where new': "LambdaKwargs init_state = (b, t1)"
    and later': "\<forall>acts. LambdaKwargs (run example_python acts t1) = (b, run example_python acts t1) \<and>
           (\<exists>obj. deref (run example_python acts t1) b = Some obj \<and> cls obj = Cls_LambdaKwargs \<and>
              tokens obj = [PStr ''**kwargs''])"
    by (elim exE conjE)
  have a: "a = 0" using new by (simp add: LambdaArgs_def init_state_def)
  have b: "b = 0" using new' by (simp add: LambdaKwargs_def init_state_def)
  from new have s1: "snd (LambdaArgs init_state) = s1" by simp
  from new' have t1: "snd (LambdaKwargs init_state) = t1" by simp
  from new a have fa: "fst (LambdaArgs init_state) = 0" by simp
  from new' b have fb: "fst (LambdaKwargs init_state) = 0" by simp
  from later have A: "LambdaArgs (run example_python ?acts s1) = (0, run example_python ?acts s1)"
    unfolding a by (rule allE) (erule conjunct1)
  from later' have B: "LambdaKwargs (run example_python ?acts' t1) = (0, run example_python ?acts' t1)"
    unfolding b by (rule allE) (erule conjunct1)
  from h1 h2 fa fb A B show ?thesis unfolding s1 t1 by (intro conjI)
qed

section \<open>Invocation\<close>

lemma apply_callable_result:
  "apply_callable f args kwargs s =
     (fst (f args kwargs (world s)), s\<lparr>world := snd (f args kwargs (world s))\<rparr>)"
  by (simp add: apply_callable_def split: prod.splits)

lemma dunder_call_rebinds_self:
  "rebinds_self kwargs \<Longrightarrow> dunder_call py a args kwargs s = (Inl (Raised ''TypeError''), s)"
  by (simp add: dunder_call_def)

lemma dunder_call_Compiled:
  "deref s a = Some obj \<Longrightarrow> lambda_slot obj = Compiled f \<Longrightarrow> \<not> rebinds_self kwargs \<Longrightarrow>
     dunder_call py a args kwargs s = apply_callable f args kwargs s"
  by (simp add: dunder_call_def)

lemma dunder_call_later:
  assumes "deref s1 a = Some obj" and "lambda_slot obj = Compiled f" and "\<not> rebinds_self kwargs"
  shows "dunder_call py a args kwargs (run py acts s1) = apply_callable f args kwargs (run py acts s1)"
proof -
  have "evolves s1 (run py acts s1)" by (rule evolves_run)
  from evolves_deref [OF this assms(1)] assms(2)
  obtain obj' where "deref (run py acts s1) a = Some obj'" and "lambda_slot obj' = Compiled f"
    by blast
  then show ?thesis using assms(3) by (rule dunder_call_Compiled)
qed

lemma dunder_call_first:
  assumes "deref s a = Some self" and "lambda_slot self = Patcher"
    and "eval_source (registered_vars s) self = Inr src"
    and "builtins_eval py src = Inr f"
    and "\<not> rebinds_self kwargs"
  shows "dunder_call py a args kwargs s =
    (fst (f args kwargs (world s)),
     s\<lparr>heap := (heap s)[a := self\<lparr>lambda_slot := Compiled f\<rparr>],
       eval_calls := Suc (eval_calls s),
       world := snd (f args kwargs (world s))\<rparr>)"
  using assms
  by (simp add: dunder_call_def call_monkey_patcher_def eval_lambda_def apply_callable_result)

text \<open>
  C5, as the claim states it, fails. The builder \<open>LambdaExpr('1 +')\<close> has the source
  \<open>lambda :1 +\<close>, on which \<open>eval\<close> raises \<open>SyntaxError\<close>. \<open>_eval\<close> then never reaches the
  assignment of the slot, so the second invocation finds the monkey patcher again and
  calls \<open>eval\<close> a second time: compilation is triggered at every invocation, and no
  compiled function is memoized.
\<close>

theorem call_recompiles_counterexample:
  "deref (snd (alloc (LambdaExpr [PStr ''1 +'']) init_state)) 0 = Some (LambdaExpr [PStr ''1 +'']) \<and>
   eval_source (registered_vars (snd (alloc (LambdaExpr [PStr ''1 +'']) init_state)))
     (LambdaExpr [PStr ''1 +'']) = Inr ''lambda :1 +'' \<and>
   dunder_call example_python 0 [] [] (snd (alloc (LambdaExpr [PStr ''1 +'']) init_state)) =
     (Inl (Raised ''SyntaxError''),
      (snd (alloc (LambdaExpr [PStr ''1 +'']) init_state))\<lparr>eval_calls := 1\<rparr>) \<and>
   dunder_call example_python 0 [] []
     ((snd (alloc (LambdaExpr [PStr ''1 +'']) init_state))\<lparr>eval_calls := 1\<rparr>) =
     (Inl (Raised ''SyntaxError''),
      (snd (alloc (LambdaExpr [PStr ''1 +'']) init_state))\<lparr>eval_calls := 2\<rparr>) \<and>
   map_option lambda_slot
     (deref ((snd (alloc (LambdaExpr [PStr ''1 +'']) init_state))\<lparr>eval_calls := 2\<rparr>) 0) = Some Patcher"
proof -
  let ?e = "LambdaExpr [PStr ''1 +'']"
  let ?s0 = "snd (alloc ?e init_state)"
  have d: "deref (?s0\<lparr>eval_calls := k\<rparr>) 0 = Some ?e" for k
    by (simp add: deref_def alloc_def init_state_def)
  have d0: "deref ?s0 0 = Some ?e"
    by (simp add: deref_def alloc_def init_state_def)
  have slot: "lambda_slot ?e = Patcher" by (simp add: LambdaExpr_def)
  have reg: "registered_vars (?s0\<lparr>eval_calls := k\<rparr>) = {}" for k
    by (simp add: alloc_def init_state_def)
  have reg0: "registered_vars ?s0 = {}"
    by (simp add: alloc_def init_state_def)
  have src: "eval_source {} ?e = Inr ''lambda :1 +''"
    by (simp add: eval_source_def dunder_str_LambdaExpr get_args_filter tokens_LambdaExpr)
  have ev: "builtins_eval example_python ''lambda :1 +'' = Inl (Raised ''SyntaxError'')"
    by (simp add: example_python_def example_eval_def)
  have no_self: "\<not> rebinds_self []" by (simp add: rebinds_self_def)
  have c1: "dunder_call example_python 0 [] [] ?s0 = (Inl (Raised ''SyntaxError''), ?s0\<lparr>eval_calls := 1\<rparr>)"
    using d0 slot no_self src ev
    by (simp add: dunder_call_def call_monkey_patcher_def eval_lambda_def reg0)
       (simp add: alloc_def init_state_def)
  have c2: "dunder_call example_python 0 [] [] (?s0\<lparr>eval_calls := 1\<rparr>) =
      (Inl (Raised ''SyntaxError''), ?s0\<lparr>eval_calls := 2\<rparr>)"
    using d [of 1] slot no_self src ev
    by (simp add: dunder_call_def call_monkey_patcher_def eval_lambda_def reg)
  have d2: "map_option lambda_slot (deref (?s0\<lparr>eval_calls := 2\<rparr>) 0) = Some Patcher"
    using d [of 2] slot by simp
  from d0 src c1 c2 d2 show ?thesis by (simp only: reg0)
qed

text \<open>
  C5, amended. Let \<open>a\<close> be a builder that has not been invoked and whose source \<open>eval\<close>
  accepts, answering \<open>f\<close>. Its first invocation calls \<open>eval\<close> exactly once, stores \<open>f\<close> in
  the slot and returns what \<open>f\<close> returns. After any further steps of the program, an
  invocation with the same arguments calls that same \<open>f\<close> and changes nothing in the
  module: \<open>eval\<close> is not called again and the slot keeps \<open>f\<close>, also when the registry has
  grown in between. The two results are equal when the result of \<open>f\<close> on these
  arguments does not depend on the world. With a keyword argument named \<open>self\<close> every
  invocation raises \<open>TypeError\<close> and nothing is compiled.
\<close>

theorem call_compiles_once:
  assumes "deref s a = Some self" and "lambda_slot self = Patcher"
    and "eval_source (registered_vars s) self = Inr src"
    and "builtins_eval py src = Inr f"
  shows
    "(rebinds_self kwargs \<longrightarrow>
        (\<forall>t. dunder_call py a args kwargs t = (Inl (Raised ''TypeError''), t))) \<and>
     (\<not> rebinds_self kwargs \<longrightarrow>
        (\<exists>s1. dunder_call py a args kwargs s = (fst (f args kwargs (world s)), s1) \<and>
           eval_calls s1 = Suc (eval_calls s) \<and>
           deref s1 a = Some (self\<lparr>lambda_slot := Compiled f\<rparr>) \<and>
           (\<forall>acts.
              dunder_call py a args kwargs (run py acts s1) =
                (fst (f args kwargs (world (run py acts s1))),
                 (run py acts s1)\<lparr>world := snd (f args kwargs (world (run py acts s1)))\<rparr>) \<and>
              eval_calls (snd (dunder_call py a args kwargs (run py acts s1))) =
                eval_calls (run py acts s1)) \<and>
           ((\<forall>w w'. fst (f args kwargs w) = fst (f args kwargs w')) \<longrightarrow>
              (\<forall>acts. fst (dunder_call py a args kwargs (run py acts s1)) =
                 fst (dunder_call py a args kwargs s)))))"
proof (intro conjI impI)
  assume "rebinds_self kwargs"
  then show "\<forall>t. dunder_call py a args kwargs t = (Inl (Raised ''TypeError''), t)"
    by (simp add: dunder_call_rebinds_self)
next
  assume no_self: "\<not> rebinds_self kwargs"
  let ?obj = "self\<lparr>lambda_slot := Compiled f\<rparr>"
  let ?s1 = "s\<lparr>heap := (heap s)[a := ?obj], eval_calls := Suc (eval_calls s),
     world := snd (f args kwargs (world s))\<rparr>"
  from assms(1) have a: "a < length (heap s)"
    by (auto simp: deref_def split: if_splits)
  have first: "dunder_call py a args kwargs s = (fst (f args kwargs (world s)), ?s1)"
    using assms no_self by (rule dunder_call_first)
  have count: "eval_calls ?s1 = Suc (eval_calls s)" by simp
  have obj: "deref ?s1 a = Some ?obj" using a by (simp add: deref_def)
  have slot: "lambda_slot ?obj = Compiled f" by simp
  have later: "dunder_call py a args kwargs (run py acts ?s1) =
      (fst (f args kwargs (world (run py acts ?s1))),
       (run py acts ?s1)\<lparr>world := snd (f args kwargs (world (run py acts ?s1)))\<rparr>)" for acts
    using dunder_call_later [OF obj slot no_self, of py args acts]
    by (simp only: apply_callable_result)
  have later_count: "eval_calls (snd (dunder_call py a args kwargs (run py acts ?s1))) =
      eval_calls (run py acts ?s1)" for acts
    by (simp add: later)
  have same: "fst (dunder_call py a args kwargs (run py acts ?s1)) = fst (dunder_call py a args kwargs s)"
    if "\<forall>w w'. fst (f args kwargs w) = fst (f args kwargs w')" for acts
  proof -
    from that have "fst (f args kwargs (world (run py acts ?s1))) = fst (f args kwargs (world s))"
      by blast
    then show ?thesis by (simp add: later first)
  qed
  show "\<exists>s1. dunder_call py a args kwargs s = (fst (f args kwargs (world s)), s1) \<and>
           eval_calls s1 = Suc (eval_calls s) \<and>
           deref s1 a = Some (self\<lparr>lambda_slot := Compiled f\<rparr>) \<and>
           (\<forall>acts.
              dunder_call py a args kwargs (run py acts s1) =
                (fst (f args kwargs (world (run py acts s1))),
                 (run py acts s1)\<lparr>world := snd (f args kwargs (world (run py acts s1)))\<rparr>) \<and>
              eval_calls (snd (dunder_call py a args kwargs (run py acts s1))) =
                eval_calls (run py acts s1)) \<and>
           ((\<forall>w w'. fst (f args kwargs w) = fst (f args kwargs w')) \<longrightarrow>
              (\<forall>acts. fst (dunder_call py a args kwargs (run py acts s1)) =
                 fst (dunder_call py a args kwargs s)))"
  proof (rule exI [of _ ?s1], intro conjI allI impI)
    show "dunder_call py a args kwargs s = (fst (f args kwargs (world s)), ?s1)" by (rule first)
    show "eval_calls ?s1 = Suc (eval_calls s)" by (rule count)
    show "deref ?s1 a = Some ?obj" by (rule obj)
    show "dunder_call py a args kwargs (run py acts ?s1) =
      (fst (f args kwargs (world (run py acts ?s1))),
       (run py acts ?s1)\<lparr>world := snd (f args kwargs (world (run py acts ?s1)))\<rparr>)" for acts
      by (rule later)
    show "eval_calls (snd (dunder_call py a args kwargs (run py acts ?s1))) =
      eval_calls (run py acts ?s1)" for acts
      by (rule later_count)
    show "fst (dunder_call py a args kwargs (run py acts ?s1)) = fst (dunder_call py a args kwargs s)"
      if "\<forall>w w'. fst (f args kwargs w) = fst (f args kwargs w')" for acts
      using that by (rule same)
  qed
qed

text \<open>
  Scenario 1: \<open>x\<close> is registered, \<open>x + 1\<close> is built and invoked with 5. The first
  invocation calls \<open>eval\<close> once and returns 6; after \<open>LambdaVar('y')\<close> and another
  invocation, a further one returns 6 again and the count of \<open>eval\<close> calls is still 1.
\<close>

theorem call_compiles_once_witness:
  "tokens (binary Add (LambdaExpr [PStr ''x'']) (Literal (PInt 1))) =
     [PStr ''('', PStr ''x'', PStr '')'', PStr ''+'', PInt 1] \<and>
   deref (run example_python
       [New_LambdaVar ''x'', New_LambdaExpr [PStr ''('', PStr ''x'', PStr '')'', PStr ''+'', PInt 1]]
       init_state) 1 = Some (LambdaExpr [PStr ''('', PStr ''x'', PStr '')'', PStr ''+'', PInt 1]) \<and>
   lambda_slot (LambdaExpr [PStr ''('', PStr ''x'', PStr '')'', PStr ''+'', PInt 1]) = Patcher \<and>
   eval_source (registered_vars (run example_python
       [New_LambdaVar ''x'', New_LambdaExpr [PStr ''('', PStr ''x'', PStr '')'', PStr ''+'', PInt 1]]
       init_state)) (LambdaExpr [PStr ''('', PStr ''x'', PStr '')'', PStr ''+'', PInt 1]) =
     Inr ''lambda x:(x)+1'' \<and>
   builtins_eval example_python ''lambda x:(x)+1'' = Inr plus_one \<and>
   rebinds_self [] = False \<and>
   fst (dunder_call example_python 1 [PInt 5] [] (run example_python
       [New_LambdaVar ''x'', New_LambdaExpr [PStr ''('', PStr ''x'', PStr '')'', PStr ''+'', PInt 1]]
       init_state)) = Inr (PInt 6) \<and>
   eval_calls (snd (dunder_call example_python 1 [PInt 5] [] (run example_python
       [New_LambdaVar ''x'', New_LambdaExpr [PStr ''('', PStr ''x'', PStr '')'', PStr ''+'', PInt 1]]
       init_state))) = 1 \<and>
   fst (dunder_call example_python 1 [PInt 5] []
     (run example_python [New_LambdaVar ''y'', Call 1 [PInt 7] []]
       (snd (dunder_call example_python 1 [PInt 5] [] (run example_python
         [New_LambdaVar ''x'', New_LambdaExpr [PStr ''('', PStr ''x'', PStr '')'', PStr ''+'', PInt 1]]
         init_state))))) = Inr (PInt 6) \<and>
   eval_calls (snd (dunder_call example_python 1 [PInt 5] []
     (run example_python [New_LambdaVar ''y'', Call 1 [PInt 7] []]
       (snd (dunder_call example_python 1 [PInt 5] [] (run example_python
         [New_LambdaVar ''x'', New_LambdaExpr [PStr ''('', PStr ''x'', PStr '')'', PStr ''+'', PInt 1]]
         init_state)))))) = 1"
proof -
  let ?py = example_python
  let ?toks = "[PStr ''('', PStr ''x'', PStr '')'', PStr ''+'', PInt 1]"
  let ?x = "\<lparr>cls = Cls_LambdaVar, tokens = [PStr ''x''], lambda_slot = Patcher\<rparr>"
  let ?e = "LambdaExpr ?toks"
  let ?s = "\<lparr>registered_vars = {''x''}, heap = [?x, ?e], LambdaArgs_instance = None,
     LambdaKwargs_instance = None, eval_calls = 0, world = (\<lambda>addr. [])\<rparr>"
  let ?acts = "[New_LambdaVar ''y'', Call 1 [PInt 7] []]"
  have toks: "tokens (binary Add (LambdaExpr [PStr ''x'']) (Literal (PInt 1))) = ?toks"
    by (simp add: binary_def collapse_def LambdaExpr_def)
  have idx: "str_isidentifier ?py ''x'' \<and> \<not> keyword_iskeyword ?py ''x''"
    by (simp add: example_python_def ascii_isidentifier_def id_start_def kwlist_def)
  have idy: "str_isidentifier ?py ''y'' \<and> \<not> keyword_iskeyword ?py ''y''"
    by (simp add: example_python_def ascii_isidentifier_def id_start_def kwlist_def)
  have s: "run ?py [New_LambdaVar ''x'', New_LambdaExpr ?toks] init_state = ?s"
    using idx by (simp add: LambdaVar_def alloc_def init_state_def)
  have h1: "deref ?s 1 = Some ?e" by (simp add: deref_def)
  have h2: "lambda_slot ?e = Patcher" by (simp add: LambdaExpr_def)
  have one: "str_int 1 = ''1''"
    by (simp add: str_int_def str_nat.simps digit_char_def)
  have h3: "eval_source (registered_vars ?s) ?e = Inr ''lambda x:(x)+1''"
    by (simp add: eval_source_def dunder_str_LambdaExpr get_args_filter tokens_LambdaExpr one)
  have h4: "builtins_eval ?py ''lambda x:(x)+1'' = Inr plus_one"
    by (simp add: example_python_def example_eval_def)
  have no_self: "\<not> rebinds_self []" by (simp add: rebinds_self_def)
  have val: "fst (plus_one [PInt 5] [] w) = Inr (PInt 6)" for w
    by (simp add: plus_one_def)
  from call_compiles_once [OF h1 h2 h3 h4, of "[]" "[PInt 5]", THEN conjunct2, rule_format, OF no_self]
  obtain s1 where first: "dunder_call ?py 1 [PInt 5] [] ?s = (fst (plus_one [PInt 5] [] (world ?s)), s1)"
    and count: "eval_calls s1 = Suc (eval_calls ?s)"
    and later: "\<forall>acts.
        dunder_call ?py 1 [PInt 5] [] (run ?py acts s1) =
          (fst (plus_one [PInt 5] [] (world (run ?py acts s1))),
           (run ?py acts s1)\<lparr>world := snd (plus_one [PInt 5] [] (world (run ?py acts s1)))\<rparr>) \<and>
        eval_calls (snd (dunder_call ?py 1 [PInt 5] [] (run ?py acts s1))) = eval_calls (run ?py acts s1)"
    by (elim exE conjE)
  from first have s1: "snd (dunder_call ?py 1 [PInt 5] [] ?s) = s1" by simp
  from first have r1: "fst (dunder_call ?py 1 [PInt 5] [] ?s) = Inr (PInt 6)"
    by (simp add: val)
  from count have c1: "eval_calls s1 = 1" by simp
  from later have l: "dunder_call ?py 1 [PInt 5] [] (run ?py ?acts s1) =
          (fst (plus_one [PInt 5] [] (world (run ?py ?acts s1))),
           (run ?py ?acts s1)\<lparr>world := snd (plus_one [PInt 5] [] (world (run ?py ?acts s1)))\<rparr>) \<and>
        eval_calls (snd (dunder_call ?py 1 [PInt 5] [] (run ?py ?acts s1))) = eval_calls (run ?py ?acts s1)"
    by (rule allE)
  then have r2: "fst (dunder_call ?py 1 [PInt 5] [] (run ?py ?acts s1)) = Inr (PInt 6)"
    by (simp add: val)
  have s1_eq: "s1 = ?s\<lparr>heap := [?x, ?e\<lparr>lambda_slot := Compiled plus_one\<rparr>], eval_calls := 1,
      world := snd (plus_one [PInt 5] [] (\<lambda>addr. []))\<rparr>"
    using s1 dunder_call_first [OF h1 h2 h3 h4 no_self, of "[PInt 5]"] by simp
  have "eval_calls (run ?py ?acts s1) = 1"
    unfolding s1_eq using idy no_self
    by (simp add: LambdaVar_def dunder_call_def deref_def apply_callable_result)
  with l have c2: "eval_calls (snd (dunder_call ?py 1 [PInt 5] [] (run ?py ?acts s1))) = 1"
    by simp
  have ns: "rebinds_self [] = False" using no_self by simp
  from toks h1 h2 h3 h4 ns r1 c1 r2 c2 show ?thesis
    unfolding s s1 by (intro conjI)
qed

section \<open>Further facts about the model\<close>

text \<open>
  Every object that the program creates from the initial state has the shape that
  \<open>var_shape\<close> asks for, so the hypothesis of the rendering theorems holds of every
  object a program can hold.
\<close>

lemma var_shape_eval_lambda:
  assumes "list_all var_shape (heap s)"
  shows "list_all var_shape (heap (snd (eval_lambda py a s)))"
proof (cases "deref s a")
  case None
  with assms show ?thesis by (simp add: eval_lambda_def)
next
  case (Some self)
  then have a: "a < length (heap s)" and self: "self = heap s ! a"
    by (auto simp: deref_def split: if_splits)
  from assms a have vs: "var_shape self"
    unfolding self by (simp add: list_all_length)
  have upd: "list_all var_shape ((heap s)[a := self\<lparr>lambda_slot := Compiled f\<rparr>])" for f
  proof -
    have "var_shape (self\<lparr>lambda_slot := Compiled f\<rparr>)"
      using vs by (simp add: var_shape_def)
    with assms a show ?thesis
      by (auto simp: list_all_length nth_list_update)
  qed
  show ?thesis
    using Some assms upd
    by (simp add: eval_lambda_def split: sum.splits)
qed

lemma heap_apply_callable: "heap (snd (apply_callable f args kwargs s)) = heap s"
  by (simp add: apply_callable_result)

lemma var_shape_call_monkey_patcher:
  assumes "list_all var_shape (heap s)"
  shows "list_all var_shape (heap (snd (call_monkey_patcher py a args kwargs s)))"
proof -
  obtain r s' where e: "eval_lambda py a s = (r, s')" by (cases "eval_lambda py a s")
  with var_shape_eval_lambda [OF assms, of py a] have "list_all var_shape (heap s')" by simp
  with assms e show ?thesis
    by (cases r) (simp_all add: call_monkey_patcher_def heap_apply_callable)
qed

lemma var_shape_dunder_call:
  assumes "list_all var_shape (heap s)"
  shows "list_all var_shape (heap (snd (dunder_call py a args kwargs s)))"
proof (cases "rebinds_self kwargs")
  case True
  with assms show ?thesis by (simp add: dunder_call_def)
next
  case no_self: False
  show ?thesis
  proof (cases "deref s a")
    case None
    with no_self assms show ?thesis by (simp add: dunder_call_def)
  next
    case (Some self)
    show ?thesis
    proof (cases "lambda_slot self")
      case Unset
      obtain b s1 where al: "alloc (dunder_getattr self ''_lambda'') s = (b, s1)"
        by (cases "alloc (dunder_getattr self ''_lambda'') s")
      have "var_shape (dunder_getattr self ''_lambda'')"
        by (simp add: var_shape_def dunder_getattr_def LambdaExpr_def)
      with assms al have "list_all var_shape (heap s1)"
        by (auto simp: alloc_def)
      then have "list_all var_shape (heap (snd (call_monkey_patcher py b args kwargs s1)))"
        by (rule var_shape_call_monkey_patcher)
      with no_self Some Unset al show ?thesis by (simp add: dunder_call_def)
    next
      case Patcher
      with no_self Some assms show ?thesis
        by (simp add: dunder_call_def var_shape_call_monkey_patcher)
    next
      case (Compiled f)
      with no_self Some assms show ?thesis
        by (simp add: dunder_call_def heap_apply_callable)
    qed
  qed
qed

lemma var_shape_step:
  assumes "list_all var_shape (heap s)"
  shows "list_all var_shape (heap (step py act s))"
proof (cases act)
  case (New_LambdaVar name)
  with assms show ?thesis by (simp add: LambdaVar_def var_shape_def)
next
  case New_LambdaArgs
  with assms show ?thesis by (simp add: LambdaArgs_def var_shape_def split: option.splits)
next
  case New_LambdaKwargs
  with assms show ?thesis by (simp add: LambdaKwargs_def var_shape_def split: option.splits)
next
  case (New_LambdaExpr toks)
  with assms show ?thesis by (simp add: alloc_def var_shape_def LambdaExpr_def)
next
  case (Call a args kwargs)
  with assms show ?thesis by (simp add: var_shape_dunder_call)
qed

lemma var_shape_run:
  "list_all var_shape (heap s) \<Longrightarrow> list_all var_shape (heap (run py acts s))"
  by (induction acts arbitrary: s) (simp_all add: var_shape_step)

lemma var_shape_reachable: "list_all var_shape (heap (run py acts init_state))"
  by (rule var_shape_run) (simp add: init_state_def)

lemma var_shape_LambdaExpr: "var_shape (LambdaExpr toks)"
  by (simp add: var_shape_def LambdaExpr_def)

text \<open>
  When \<open>eval\<close> raises, \<open>_eval\<close> does not reach the assignment of the slot: the exception
  goes to the caller, the call of \<open>eval\<close> is counted, and the object is as before, so
  the next invocation calls \<open>eval\<close> again. This holds of every builder and every
  evaluator.
\<close>

lemma call_eval_failure_not_memoized:
  assumes "deref s a = Some self" and "lambda_slot self = Patcher"
    and "eval_source (registered_vars s) self = Inr src" and "builtins_eval py src = Inl e"
    and "\<not> rebinds_self kwargs"
  shows "dunder_call py a args kwargs s = (Inl e, s\<lparr>eval_calls := Suc (eval_calls s)\<rparr>)"
  using assms by (simp add: dunder_call_def call_monkey_patcher_def eval_lambda_def)

text \<open>
  A compiled function whose result depends on the world can answer differently to the
  same arguments: for the function that returns the length of the list at address 0
  and appends to it, two invocations of the builder that holds it return 0 and then 1.
\<close>

lemma call_result_depends_on_world:
  "fst (dunder_call py 0 [] []
     \<lparr>registered_vars = {},
      heap = [\<lparr>cls = Cls_LambdaExpr, tokens = toks,
        lambda_slot = Compiled (\<lambda>args kwargs w. (Inr (PInt (int (length (w 0)))), w(0 := w 0 @ [PNone])))\<rparr>],
      LambdaArgs_instance = None, LambdaKwargs_instance = None, eval_calls = 0,
      world = (\<lambda>addr. [])\<rparr>) = Inr (PInt 0) \<and>
   fst (dunder_call py 0 [] []
     (snd (dunder_call py 0 [] []
       \<lparr>registered_vars = {},
        heap = [\<lparr>cls = Cls_LambdaExpr, tokens = toks,
          lambda_slot = Compiled (\<lambda>args kwargs w. (Inr (PInt (int (length (w 0)))), w(0 := w 0 @ [PNone])))\<rparr>],
        LambdaArgs_instance = None, LambdaKwargs_instance = None, eval_calls = 0,
        world = (\<lambda>addr. [])\<rparr>))) = Inr (PInt 1)"
  by (simp add: dunder_call_def rebinds_self_def deref_def apply_callable_result)

text \<open>
  The evaluated lambda is the one for the registry at the first invocation: a name
  registered later does not enter the parameters of a builder that is already compiled,
  although \<open>_get_args\<close> would now list it.
\<close>

lemma get_args_grows_with_registry:
  "get_args {''x''} (LambdaExpr [PStr ''('', PStr ''x'', PStr '')'', PStr ''+'', PStr ''y'']) = [''x''] \<and>
   get_args {''x'', ''y''} (LambdaExpr [PStr ''('', PStr ''x'', PStr '')'', PStr ''+'', PStr ''y''])
     = [''x'', ''y'']"
  by (simp add: get_args_filter tokens_LambdaExpr less_eq_list_code less_list_code)

end
